theory Spec2Isabelle
  imports Main "HOL-Library.AList" "HOL-Library.Sublist"
begin

section \<open>Legacy job data migration: the model\<close>

text \<open>
  A shallow embedding of \<^verbatim>\<open>old_data/migrate_old_data.py\<close> (class
  \<^verbatim>\<open>OldDataMigrator\<close>). Python strings are modelled as HOL strings, read as
  sequences of code points below 256; Python's unbounded integers as \<open>nat\<close> and
  \<open>int\<close>. Everything the migrator does to the outside world (HTTP requests, printed
  lines, the clock, the database) is explicit: the outside world is a record of
  functions, and the effects are lists that grow.
\<close>

subsection \<open>Characters, digits and whitespace\<close>

text \<open>
  \<^verbatim>\<open>str.strip()\<close> without arguments and the regular expression class
  \<^verbatim>\<open>\s\<close> agree on what whitespace is (\<^verbatim>\<open>str.isspace\<close>); below code point
  256 these are the twelve characters listed. The class \<^verbatim>\<open>\d\<close> holds, below 256,
  the ten ASCII digits.
\<close>

definition is_space :: "char \<Rightarrow> bool" where
  "is_space c \<longleftrightarrow> c \<in> set [CHR 0x09, CHR 0x0A, CHR 0x0B, CHR 0x0C, CHR 0x0D,
     CHR 0x1C, CHR 0x1D, CHR 0x1E, CHR 0x1F, CHR 0x20, CHR 0x85, CHR 0xA0]"

definition is_digit :: "char \<Rightarrow> bool" where
  "is_digit c \<longleftrightarrow> c \<in> set ''0123456789''"

definition strip :: "string \<Rightarrow> string" where
  "strip s = rev (dropWhile is_space (rev (dropWhile is_space s)))"

definition digit_val :: "char \<Rightarrow> nat" where
  "digit_val c = of_char c - of_char (CHR ''0'')"

definition digit_char :: "nat \<Rightarrow> char" where
  "digit_char n = ''0123456789'' ! (n mod 10)"

text \<open>\<^verbatim>\<open>int(s)\<close> on a run of digits, surrounding whitespace ignored.\<close>

definition py_int :: "string \<Rightarrow> nat" where
  "py_int s = foldl (\<lambda>a c. 10 * a + digit_val c) 0 (strip s)"

text \<open>\<^verbatim>\<open>str(n)\<close> for a natural number, and a decimal padded with zeros to a
  minimal width as the \<^verbatim>\<open>%04d\<close> and \<^verbatim>\<open>%02d\<close> conversions print it.\<close>

fun dec :: "nat \<Rightarrow> string" where
  "dec n = (if n < 10 then [digit_char n] else dec (n div 10) @ [digit_char n])"

declare dec.simps [simp del]

definition zpad :: "nat \<Rightarrow> nat \<Rightarrow> string" where
  "zpad w n = replicate (w - length (dec n)) (CHR ''0'') @ dec n"

subsection \<open>Dates\<close>

record date =
  year :: nat
  month :: nat
  day :: nat

record datetime =
  on_date :: date
  hour :: nat
  minute :: nat
  second :: nat
  microsecond :: nat

definition is_leap :: "nat \<Rightarrow> bool" where
  "is_leap y \<longleftrightarrow> y mod 4 = 0 \<and> (y mod 100 \<noteq> 0 \<or> y mod 400 = 0)"

definition days_in_month :: "nat \<Rightarrow> nat \<Rightarrow> nat" where
  "days_in_month y m =
     (if m = 2 then (if is_leap y then 29 else 28)
      else if m \<in> {4, 6, 9, 11} then 30 else 31)"

text \<open>What the constructors \<^verbatim>\<open>date(y, m, d)\<close> and
  \<^verbatim>\<open>datetime(y, m, d, H, M, S)\<close> accept; anything else is a
  \<^verbatim>\<open>ValueError\<close>.\<close>

definition valid_date :: "date \<Rightarrow> bool" where
  "valid_date d \<longleftrightarrow> 1 \<le> year d \<and> year d \<le> 9999 \<and> 1 \<le> month d \<and> month d \<le> 12
     \<and> 1 \<le> day d \<and> day d \<le> days_in_month (year d) (month d)"

definition valid_time :: "nat \<Rightarrow> nat \<Rightarrow> nat \<Rightarrow> bool" where
  "valid_time h mi s \<longleftrightarrow> h \<le> 23 \<and> mi \<le> 59 \<and> s \<le> 59"

definition isoformat :: "date \<Rightarrow> string" where
  "isoformat d = zpad 4 (year d) @ ''-'' @ zpad 2 (month d) @ ''-'' @ zpad 2 (day d)"

text \<open>\<^verbatim>\<open>str(datetime)\<close>: the ISO form with a space as separator, the
  microseconds only when they are not zero.\<close>

definition datetime_str :: "datetime \<Rightarrow> string" where
  "datetime_str t =
     isoformat (on_date t) @ '' '' @ zpad 2 (hour t) @ '':'' @ zpad 2 (minute t) @ '':''
       @ zpad 2 (second t)
       @ (if microsecond t = 0 then [] else ''.'' @ zpad 6 (microsecond t))"

subsection \<open>\<^verbatim>\<open>datetime.strptime\<close>\<close>

text \<open>
  \<^verbatim>\<open>strptime\<close> turns the format into a regular expression and matches it
  against the start of the text with a backtracking matcher; text left over after the
  match is an error, as is a date or time the constructor refuses. Every failure is a
  \<^verbatim>\<open>ValueError\<close>, modelled as \<open>None\<close>. The directives the migrator uses,
  with the alternatives of each in the order the library lists them:

  \<^item> \<^verbatim>\<open>%Y  \d\d\d\d\<close>
  \<^item> \<^verbatim>\<open>%m  1[0-2]|0[1-9]|[1-9]\<close>
  \<^item> \<^verbatim>\<open>%d  3[0-1]|[1-2]\d|0[1-9]|[1-9]| [1-9]\<close>
  \<^item> \<^verbatim>\<open>%H  2[0-3]|[0-1]\d|\d\<close>
  \<^item> \<^verbatim>\<open>%M  [0-5]\d|\d\<close>
  \<^item> \<^verbatim>\<open>%S  6[0-1]|[0-5]\d|\d\<close>

  A run of whitespace in the format becomes \<^verbatim>\<open>\s+\<close>.
\<close>

datatype cclass = Ch char | Rng char char | AnyDigit

fun cc_match :: "cclass \<Rightarrow> char \<Rightarrow> bool" where
  "cc_match (Ch c) x \<longleftrightarrow> x = c"
| "cc_match (Rng lo hi) x \<longleftrightarrow> (of_char lo :: nat) \<le> of_char x \<and> (of_char x :: nat) \<le> of_char hi"
| "cc_match AnyDigit x \<longleftrightarrow> is_digit x"

datatype rx_item = RLit char | RGroup char "cclass list list" | RSpaces

definition directive :: "char \<Rightarrow> cclass list list option" where
  "directive c =
     (if c = CHR ''Y'' then Some [[AnyDigit, AnyDigit, AnyDigit, AnyDigit]]
      else if c = CHR ''m'' then
        Some [[Ch (CHR ''1''), Rng (CHR ''0'') (CHR ''2'')],
              [Ch (CHR ''0''), Rng (CHR ''1'') (CHR ''9'')],
              [Rng (CHR ''1'') (CHR ''9'')]]
      else if c = CHR ''d'' then
        Some [[Ch (CHR ''3''), Rng (CHR ''0'') (CHR ''1'')],
              [Rng (CHR ''1'') (CHR ''2''), AnyDigit],
              [Ch (CHR ''0''), Rng (CHR ''1'') (CHR ''9'')],
              [Rng (CHR ''1'') (CHR ''9'')],
              [Ch (CHR '' ''), Rng (CHR ''1'') (CHR ''9'')]]
      else if c = CHR ''H'' then
        Some [[Ch (CHR ''2''), Rng (CHR ''0'') (CHR ''3'')],
              [Rng (CHR ''0'') (CHR ''1''), AnyDigit],
              [AnyDigit]]
      else if c = CHR ''M'' then
        Some [[Rng (CHR ''0'') (CHR ''5''), AnyDigit], [AnyDigit]]
      else if c = CHR ''S'' then
        Some [[Ch (CHR ''6''), Rng (CHR ''0'') (CHR ''1'')],
              [Rng (CHR ''0'') (CHR ''5''), AnyDigit],
              [AnyDigit]]
      else None)"

text \<open>\<^verbatim>\<open>TimeRE.pattern\<close>: the format as a sequence of regular expression
  items. A directive outside the table is refused (the formats of the migrator use
  no other).\<close>

fun pattern :: "string \<Rightarrow> rx_item list option" where
  "pattern [] = Some []"
| "pattern [c] =
     (if c = CHR ''%'' then None
      else if is_space c then Some [RSpaces]
      else Some [RLit c])"
| "pattern (c # c' # cs) =
     (if c = CHR ''%'' then
        (case directive c' of
           None \<Rightarrow> None
         | Some alts \<Rightarrow> map_option ((#) (RGroup c' alts)) (pattern cs))
      else if is_space c then
        (if is_space c' then pattern (c' # cs)
         else map_option ((#) RSpaces) (pattern (c' # cs)))
      else map_option ((#) (RLit c)) (pattern (c' # cs)))"

text \<open>One alternative of a directive is a fixed sequence of character classes.\<close>

fun match_alt :: "cclass list \<Rightarrow> string \<Rightarrow> (string \<times> string) option" where
  "match_alt [] s = Some ([], s)"
| "match_alt (c # cs) [] = None"
| "match_alt (c # cs) (x # xs) =
     (if cc_match c x
      then (case match_alt cs xs of None \<Rightarrow> None | Some (m, r) \<Rightarrow> Some (x # m, r))
      else None)"

text \<open>Backtracking: the first choice, in order, with which the rest of the
  expression matches.\<close>

fun first_success :: "('a \<Rightarrow> 'b option) \<Rightarrow> 'a list \<Rightarrow> 'b option" where
  "first_success f [] = None"
| "first_success f (a # as) =
     (case f a of Some b \<Rightarrow> Some b | None \<Rightarrow> first_success f as)"

type_synonym captures = "(char \<times> string) list"

fun match_item ::
  "rx_item \<Rightarrow> (string \<Rightarrow> (captures \<times> string) option) \<Rightarrow> string \<Rightarrow> (captures \<times> string) option"
where
  "match_item (RLit c) k s =
     (case s of [] \<Rightarrow> None | x # xs \<Rightarrow> if x = c then k xs else None)"
| "match_item (RGroup g alts) k s =
     first_success
       (\<lambda>alt. case match_alt alt s of
                 None \<Rightarrow> None
               | Some (m, r) \<Rightarrow> map_option (\<lambda>(caps, r'). ((g, m) # caps, r')) (k r))
       alts"
| "match_item RSpaces k s =
     first_success (\<lambda>n. k (drop n s)) (rev [1 ..< Suc (length (takeWhile is_space s))])"

primrec match_items :: "rx_item list \<Rightarrow> string \<Rightarrow> (captures \<times> string) option" where
  "match_items [] = (\<lambda>s. Some ([], s))"
| "match_items (i # is) = match_item i (match_items is)"

definition group :: "captures \<Rightarrow> char \<Rightarrow> nat \<Rightarrow> nat" where
  "group caps g dflt = (case map_of caps g of None \<Rightarrow> dflt | Some m \<Rightarrow> py_int m)"

definition strptime :: "string \<Rightarrow> string \<Rightarrow> datetime option" where
  "strptime data_string fmt =
     (case pattern fmt of
        None \<Rightarrow> None
      | Some items \<Rightarrow>
          (case match_items items data_string of
             None \<Rightarrow> None
           | Some (found, rest) \<Rightarrow>
               if rest \<noteq> [] then None
               else
                 let d = \<lparr>year = group found (CHR ''Y'') 1900,
                          month = group found (CHR ''m'') 1,
                          day = group found (CHR ''d'') 1\<rparr>;
                     h = group found (CHR ''H'') 0;
                     mi = group found (CHR ''M'') 0;
                     s = group found (CHR ''S'') 0
                 in if valid_date d \<and> valid_time h mi s
                    then Some \<lparr>on_date = d, hour = h, minute = mi, second = s, microsecond = 0\<rparr>
                    else None))"

subsection \<open>\<^verbatim>\<open>_parse_date\<close>\<close>

definition formats :: "string list" where
  "formats = [''%Y-%m-%d'', ''%Y/%m/%d'', ''%d.%m.%Y'', ''%d/%m/%Y'',
     ''%Y-%m-%d %H:%M:%S'', ''%Y/%m/%d %H:%M:%S'']"

text \<open>The loop over the formats: a \<^verbatim>\<open>ValueError\<close> moves on to the next
  format, the first success returns.\<close>

fun try_formats :: "string \<Rightarrow> string list \<Rightarrow> date option" where
  "try_formats s [] = None"
| "try_formats s (fmt # fmts) =
     (case strptime s fmt of
        Some t \<Rightarrow> Some (on_date t)
      | None \<Rightarrow> try_formats s fmts)"

definition parse_date :: "string \<Rightarrow> date option" where
  "parse_date date_str =
     (if date_str = [] \<or> strip date_str = [] then None
      else try_formats (strip date_str) formats)"

subsection \<open>Rows, mapped fields and payloads\<close>

text \<open>
  A cell of a fetched row is \<^verbatim>\<open>None\<close>, a string, an integer, a date or a
  datetime; a row (the cursor returns dictionaries) is a map from column names to
  cells. \<open>py_str\<close> is \<^verbatim>\<open>str(value)\<close> and \<open>truthy\<close> is the truth value
  Python gives a cell in a condition.
\<close>

datatype pyval = PNone | PStr string | PInt int | PDate date | PDateTime datetime

type_synonym row = "string \<rightharpoonup> pyval"

fun py_str :: "pyval \<Rightarrow> string" where
  "py_str PNone = ''None''"
| "py_str (PStr s) = s"
| "py_str (PInt i) = (if i < 0 then ''-'' @ dec (nat (- i)) else dec (nat i))"
| "py_str (PDate d) = isoformat d"
| "py_str (PDateTime t) = datetime_str t"

fun truthy :: "pyval \<Rightarrow> bool" where
  "truthy PNone \<longleftrightarrow> False"
| "truthy (PStr s) \<longleftrightarrow> s \<noteq> []"
| "truthy (PInt i) \<longleftrightarrow> i \<noteq> 0"
| "truthy (PDate d) \<longleftrightarrow> True"
| "truthy (PDateTime t) \<longleftrightarrow> True"

text \<open>The values of the dictionaries the migrator builds: a mapped field is a
  string or \<^verbatim>\<open>None\<close>, and a payload holds one boolean as well. Dictionaries
  that are built up key by key keep their insertion order: association lists,
  assigned to with \<open>AList.update\<close>.\<close>

datatype jval = JNone | JStr string | JBool bool

type_synonym pydict = "(string \<times> jval) list"

definition COMPANY_MAPPING :: "(string \<times> string) list" where
  "COMPANY_MAPPING = [(''kls'', ''KLS''), (''ks'', ''KarlStorz'')]"

definition HIDDEN_COMPANIES :: "string set" where
  "HIDDEN_COMPANIES = {''Europapark'', ''KarlsStorz'', ''Schwer''}"

definition FIELD_MAPPINGS :: "(string \<times> (string \<times> string) list) list" where
  "FIELD_MAPPINGS =
    [(''bbraun'',
       [(''JobID'', ''job_id''), (''Title'', ''title''), (''urlTitle'', ''url_title''),
        (''Function'', ''function''), (''Level'', ''level''),
        (''WorkLocation'', ''work_location''),
        (''WorkLocationShort'', ''work_location_short''),
        (''WorkLocationWithCoordinates'', ''work_location_with_coordinates''),
        (''CoordinatesPrimary'', ''coordinates_primary''), (''Country'', ''country''),
        (''currency'', ''currency''), (''supportedLocales'', ''supported_locales''),
        (''unifiedUrlTitle'', ''unified_url_title''),
        (''unifiedStandardEnd'', ''unified_standard_end''),
        (''unifiedStandardStart'', ''unified_standard_start''),
        (''DateAdded'', ''date_added'')]),
     (''ep'',
       [(''URL'', ''url''), (''Title'', ''title''), (''Function'', ''function''),
        (''WorkLocation'', ''work_location''), (''ContractType'', ''contract_type''),
        (''Company'', ''department''), (''ContactPerson'', ''contact_person''),
        (''ContactEmail'', ''contact_email''), (''ContactPhone'', ''contact_phone''),
        (''Description'', ''description''), (''Offerings'', ''offerings''),
        (''Tasks'', ''tasks''), (''Qualifications'', ''qualifications''),
        (''DateAdded'', ''date_added'')]),
     (''kauth'',
       [(''Title'', ''title''), (''JobID'', ''job_id''), (''URL'', ''url''),
        (''city'', ''work_location_short''), (''Contract_Type'', ''contract_type''),
        (''Flexibility'', ''flexibility''), (''Work_Location'', ''work_location''),
        (''Job_Level'', ''level''), (''ContactPerson'', ''contact_person''),
        (''ContactPosition'', ''description''), (''DateAdded'', ''date_added'')]),
     (''kls'',
       [(''Title'', ''title''), (''Function'', ''function''), (''Level'', ''level''),
        (''WorkLocation'', ''work_location''), (''Flexibility'', ''flexibility''),
        (''JobID'', ''job_id''), (''ContractType'', ''contract_type''),
        (''ContactPerson'', ''contact_person''), (''Offerings'', ''offerings''),
        (''Tasks'', ''tasks''), (''Qualifications'', ''qualifications''),
        (''DateAdded'', ''date_added'')]),
     (''ks'',
       [(''Title'', ''title''), (''URL'', ''url''), (''Function'', ''function''),
        (''Level'', ''level''), (''WorkLocation'', ''work_location''),
        (''Flexibility'', ''flexibility''), (''CompanyLocation'', ''work_location_short''),
        (''DetailLocation'', ''all_locations''), (''JobID'', ''job_id''),
        (''PayRange'', ''keywords''), (''DateAdded'', ''date_added'')]),
     (''schwer'',
       [(''JobID'', ''job_id''), (''Title'', ''title''), (''ContractType'', ''contract_type''),
        (''Level'', ''level''), (''Keywords'', ''keywords''),
        (''Description'', ''description''), (''WorkLocation'', ''work_location''),
        (''AllLocations'', ''all_locations''), (''Flexibility'', ''flexibility''),
        (''Department'', ''department''), (''Company'', ''contact_person''),
        (''DateAdded'', ''date_added'')]),
     (''trelectronic'',
       [(''Title'', ''title''), (''JobID'', ''job_id''), (''URL'', ''url''),
        (''city'', ''work_location_short''), (''Contract_Type'', ''contract_type''),
        (''Flexibility'', ''flexibility''), (''Work_Location'', ''work_location''),
        (''Job_Level'', ''level''), (''ContactPerson'', ''contact_person''),
        (''ContactPosition'', ''description''), (''DateAdded'', ''date_added'')])]"

text \<open>\<^verbatim>\<open>FIELD_MAPPINGS.get(company_prefix, {})\<close>.\<close>

definition field_mapping :: "string \<Rightarrow> (string \<times> string) list" where
  "field_mapping company_prefix =
     (case map_of FIELD_MAPPINGS company_prefix of None \<Rightarrow> [] | Some m \<Rightarrow> m)"

text \<open>The body of the loop of \<^verbatim>\<open>map_job_fields\<close>, for one pair of the
  mapping. A string that no format parses leaves the key out.\<close>

definition map_field :: "row \<Rightarrow> string \<times> string \<Rightarrow> pydict \<Rightarrow> pydict" where
  "map_field old_row fm new_data =
     (let old_field = fst fm; new_field = snd fm in
      case old_row old_field of
        None \<Rightarrow> new_data
      | Some v \<Rightarrow>
          if v = PNone then new_data
          else if new_field = ''date_added''
                  \<and> (case v of PStr _ \<Rightarrow> True | PDateTime _ \<Rightarrow> True | _ \<Rightarrow> False) then
            (case v of
               PStr s \<Rightarrow>
                 (case parse_date s of
                    Some parsed \<Rightarrow> AList.update new_field (JStr (isoformat parsed)) new_data
                  | None \<Rightarrow> new_data)
             | PDateTime t \<Rightarrow> AList.update new_field (JStr (isoformat (on_date t))) new_data
             | _ \<Rightarrow> new_data)
          else AList.update new_field (if v \<noteq> PNone then JStr (py_str v) else JNone) new_data)"

definition map_job_fields :: "string \<Rightarrow> row \<Rightarrow> pydict" where
  "map_job_fields company_prefix old_row =
     foldl (\<lambda>new_data fm. map_field old_row fm new_data) [] (field_mapping company_prefix)"

text \<open>The payload of \<^verbatim>\<open>insert_job_via_api\<close>: the three fixed keys, then the
  mapped fields assigned over them (\<^verbatim>\<open>**job_data\<close>), then every key whose value
  is \<^verbatim>\<open>None\<close> removed.\<close>

definition build_payload :: "string \<Rightarrow> pydict \<Rightarrow> date \<Rightarrow> pydict" where
  "build_payload company_name job_data scrape_date =
     (let is_hidden = company_name \<in> HIDDEN_COMPANIES;
          payload = foldl (\<lambda>p kv. AList.update (fst kv) (snd kv) p)
            [(''company_name'', JStr company_name),
             (''hidden'', JBool is_hidden),
             (''scrape_date'', JStr (isoformat scrape_date))]
            job_data
      in filter (\<lambda>kv. snd kv \<noteq> JNone) payload)"

subsection \<open>The outside world\<close>

text \<open>
  The answer to one \<^verbatim>\<open>session.post\<close>. Either the call raises a
  \<^verbatim>\<open>RequestException\<close>, which may carry a response (too many redirects) or none
  (connection refused, timeout); \<open>Raised\<close> holds the text of the response carried, if
  any. Or it returns a response with its status code and the body the server sent.
  The HTTP client drops the body of a response with status below 200, 204 or 304, so
  the migrator sees the empty text for those. \<^verbatim>\<open>raise_for_status\<close> raises
  \<^verbatim>\<open>HTTPError\<close>, with the response, for the status codes 400 to 599 and for no
  other.
\<close>

datatype api_response = Raised "string option" | Response nat string

definition raise_for_status :: "nat \<Rightarrow> bool" where
  "raise_for_status status_code \<longleftrightarrow> 400 \<le> status_code \<and> status_code < 600"

definition body_seen :: "nat \<Rightarrow> string \<Rightarrow> string" where
  "body_seen status_code body =
     (if status_code < 200 \<or> status_code = 204 \<or> status_code = 304 then [] else body)"

datatype py_error = KeyError | AttributeError | DatabaseError | RecursionError | ValueError

text \<open>
  What the JSON decoder does with a text: it returns a value, or raises
  \<^verbatim>\<open>JSONDecodeError\<close>, which \<^verbatim>\<open>Response.json\<close> turns into
  \<^verbatim>\<open>requests.exceptions.JSONDecodeError\<close>, a \<^verbatim>\<open>RequestException\<close> that
  carries no response (requests 2.27 and later), or raises another exception
  (\<^verbatim>\<open>RecursionError\<close> on deeply nested text, \<^verbatim>\<open>ValueError\<close> on a
  number with too many digits), which \<^verbatim>\<open>Response.json\<close> lets through.
\<close>

datatype json_outcome = JsonValue | JsonDecodeError | JsonRaises py_error

record company_stats =
  jobs :: nat
  dates :: nat
  failed :: nat

record stats =
  total_jobs :: nat
  total_dates :: nat
  total_errors :: nat
  by_company :: "(string \<times> company_stats) list"

text \<open>The lines the migrator prints, by kind, with the values they show.\<close>

datatype log_line =
    Connected
  | ConnectError
  | Banner string
  | SkipWarning "pyval option"
  | InsertError
  | ResponseText string
  | Progress nat nat
  | Completed nat nat nat
  | MigrateError string py_error
  | Traceback py_error
  | Summary stats

datatype connection = NotConnected | Open | Closed

text \<open>What has happened so far: the requests sent, in order, the lines printed, in
  order, and the state of the database connection.\<close>

record world =
  posted :: "pydict list"
  printed :: "log_line list"
  conn :: connection

text \<open>What the run depends on and does not control: whether the database accepts
  the connection, the rows the two queries of a source return (\<open>None\<close> when a query
  raises a database error), the response to the n-th request, the JSON decoder, the
  current date, and \<^verbatim>\<open>datetime.fromisoformat(s).date()\<close> (\<open>None\<close> when it
  raises). The current date is taken to be the same during one run.\<close>

record env =
  connects :: bool
  fetch :: "string \<Rightarrow> (row list \<times> row list) option"
  responses :: "nat \<Rightarrow> api_response"
  json_loads :: "string \<Rightarrow> json_outcome"
  today :: date
  fromisoformat :: "string \<Rightarrow> date option"

definition say :: "log_line list \<Rightarrow> world \<Rightarrow> world" where
  "say ls w = w\<lparr>printed := printed w @ ls\<rparr>"

text \<open>\<^verbatim>\<open>Response.json\<close>: the empty text is no JSON document.\<close>

definition response_json :: "env \<Rightarrow> string \<Rightarrow> json_outcome" where
  "response_json e text = (if text = [] then JsonDecodeError else json_loads e text)"

subsection \<open>\<^verbatim>\<open>insert_job_via_api\<close>\<close>

text \<open>The handler catches \<^verbatim>\<open>RequestException\<close> only: the function returns
  true or false, or lets another exception of the decoder through.\<close>

definition insert_job_via_api ::
  "env \<Rightarrow> string \<Rightarrow> pydict \<Rightarrow> date \<Rightarrow> world \<Rightarrow> world \<times> (py_error + bool)" where
  "insert_job_via_api e company_name job_data scrape_date w =
     (let payload = build_payload company_name job_data scrape_date;
          response = responses e (length (posted w));
          w1 = w\<lparr>posted := posted w @ [payload]\<rparr>
      in case response of
           Raised carried \<Rightarrow>
             (say (InsertError # (case carried of None \<Rightarrow> [] | Some text \<Rightarrow> [ResponseText text])) w1,
              Inr False)
         | Response status_code body \<Rightarrow>
             (let text = body_seen status_code body in
              if raise_for_status status_code
              then (say [InsertError, ResponseText text] w1, Inr False)
              else (case response_json e text of
                      JsonValue \<Rightarrow> (w1, Inr True)
                    | JsonDecodeError \<Rightarrow> (say [InsertError] w1, Inr False)
                    | JsonRaises err \<Rightarrow> (w1, Inl err))))"

subsection \<open>\<^verbatim>\<open>migrate_company\<close>\<close>

text \<open>The local variables of \<^verbatim>\<open>migrate_company\<close>. An exception that leaves the
  function loses them; the world keeps what was sent and printed.\<close>

record counters =
  jobs_migrated :: nat
  dates_migrated :: nat
  errors :: nat
  processed_jobs :: "pyval set"

definition counters0 :: counters where
  "counters0 = \<lparr>jobs_migrated = 0, dates_migrated = 0, errors = 0, processed_jobs = {}\<rparr>"

text \<open>\<^verbatim>\<open>_parse_date\<close> as the first loop calls it, on a cell that is true in a
  condition: a cell that is no string has no \<^verbatim>\<open>strip\<close>.\<close>

fun parse_date_cell :: "pyval \<Rightarrow> py_error + date option" where
  "parse_date_cell (PStr s) = Inr (parse_date s)"
| "parse_date_cell v = (if \<not> truthy v then Inr None else Inl AttributeError)"

definition scrape_date_of :: "row \<Rightarrow> py_error + date option" where
  "scrape_date_of r =
     (case r ''ScrapeDate'' of
        None \<Rightarrow> Inr None
      | Some scrape_date_str \<Rightarrow>
          if truthy scrape_date_str then parse_date_cell scrape_date_str else Inr None)"

text \<open>One iteration of the loop over the rows of the join. The statements after
  \<^verbatim>\<open>continue\<close> in the source are never reached and have no counterpart.\<close>

definition dated_row ::
  "env \<Rightarrow> string \<Rightarrow> string \<Rightarrow> world \<times> counters \<Rightarrow> row \<Rightarrow> world \<times> (py_error + counters)" where
  "dated_row e company_prefix company_name wc r =
     (let w = fst wc; c = snd wc;
          job_data = map_job_fields company_prefix r
      in case scrape_date_of r of
           Inl err \<Rightarrow> (w, Inl err)
         | Inr None \<Rightarrow> (say [SkipWarning (r ''ScrapeDate'')] w, Inr c)
         | Inr (Some scrape_date) \<Rightarrow>
             (case insert_job_via_api e company_name job_data scrape_date w of
                (w1, Inl err) \<Rightarrow> (w1, Inl err)
              | (w1, Inr success) \<Rightarrow>
                  (let c1 = (if success then c\<lparr>dates_migrated := dates_migrated c + 1\<rparr>
                             else c\<lparr>errors := errors c + 1\<rparr>)
                   in case r ''id'' of
                        None \<Rightarrow> (w1, Inl KeyError)
                      | Some job_id \<Rightarrow>
                          (let c2 = (if job_id \<notin> processed_jobs c1
                                     then c1\<lparr>jobs_migrated := jobs_migrated c1 + 1,
                                             processed_jobs := insert job_id (processed_jobs c1)\<rparr>
                                     else c1);
                               w2 = (if dates_migrated c2 mod 50 = 0
                                     then say [Progress (jobs_migrated c2) (dates_migrated c2)] w1
                                     else w1)
                           in (w2, Inr c2)))))"

fun dated_rows ::
  "env \<Rightarrow> string \<Rightarrow> string \<Rightarrow> row list \<Rightarrow> world \<times> counters \<Rightarrow> world \<times> (py_error + counters)" where
  "dated_rows e company_prefix company_name [] wc = (fst wc, Inr (snd wc))"
| "dated_rows e company_prefix company_name (r # rs) wc =
     (case dated_row e company_prefix company_name wc r of
        (w, Inl err) \<Rightarrow> (w, Inl err)
      | (w, Inr c) \<Rightarrow> dated_rows e company_prefix company_name rs (w, c))"

text \<open>The date of a listing without date entries.\<close>

definition dateless_date :: "env \<Rightarrow> pydict \<Rightarrow> date" where
  "dateless_date e job_data =
     (case map_of job_data ''date_added'' of
        Some (JStr s) \<Rightarrow>
          if s \<noteq> [] then (case fromisoformat e s of Some d \<Rightarrow> d | None \<Rightarrow> today e)
          else today e
      | _ \<Rightarrow> today e)"

definition dateless_row ::
  "env \<Rightarrow> string \<Rightarrow> string \<Rightarrow> world \<times> counters \<Rightarrow> row \<Rightarrow> world \<times> (py_error + counters)" where
  "dateless_row e company_prefix company_name wc r =
     (let w = fst wc; c = snd wc;
          job_data = map_job_fields company_prefix r;
          scrape_date = dateless_date e job_data
      in case insert_job_via_api e company_name job_data scrape_date w of
           (w1, Inl err) \<Rightarrow> (w1, Inl err)
         | (w1, Inr success) \<Rightarrow>
             (let c1 = (if success then c\<lparr>dates_migrated := dates_migrated c + 1\<rparr>
                        else c\<lparr>errors := errors c + 1\<rparr>)
              in (w1, Inr (c1\<lparr>jobs_migrated := jobs_migrated c1 + 1\<rparr>))))"

fun dateless_rows ::
  "env \<Rightarrow> string \<Rightarrow> string \<Rightarrow> row list \<Rightarrow> world \<times> counters \<Rightarrow> world \<times> (py_error + counters)" where
  "dateless_rows e company_prefix company_name [] wc = (fst wc, Inr (snd wc))"
| "dateless_rows e company_prefix company_name (r # rs) wc =
     (case dateless_row e company_prefix company_name wc r of
        (w, Inl err) \<Rightarrow> (w, Inl err)
      | (w, Inr c) \<Rightarrow> dateless_rows e company_prefix company_name rs (w, c))"

definition record_company :: "string \<Rightarrow> counters \<Rightarrow> stats \<Rightarrow> stats" where
  "record_company company_name c st =
     st\<lparr>by_company :=
          AList.update company_name
            \<lparr>jobs = jobs_migrated c, dates = dates_migrated c, failed = errors c\<rparr>
            (by_company st),
        total_jobs := total_jobs st + jobs_migrated c,
        total_dates := total_dates st + dates_migrated c,
        total_errors := total_errors st + errors c\<rparr>"

definition migrate_company ::
  "env \<Rightarrow> string \<Rightarrow> world \<times> stats \<Rightarrow> world \<times> (py_error + stats)" where
  "migrate_company e company_prefix ws =
     (let w = fst ws; st = snd ws in
      case map_of COMPANY_MAPPING company_prefix of
        None \<Rightarrow> (w, Inl KeyError)
      | Some company_name \<Rightarrow>
          (let w1 = say [Banner company_name] w in
           case fetch e company_prefix of
             None \<Rightarrow> (w1, Inl DatabaseError)
           | Some (all_rows, jobs_without_dates) \<Rightarrow>
               (case dated_rows e company_prefix company_name all_rows (w1, counters0) of
                  (w2, Inl err) \<Rightarrow> (w2, Inl err)
                | (w2, Inr c) \<Rightarrow>
                    (case dateless_rows e company_prefix company_name
                            jobs_without_dates (w2, c) of
                       (w3, Inl err) \<Rightarrow> (w3, Inl err)
                     | (w3, Inr c') \<Rightarrow>
                         (say [Completed (jobs_migrated c') (dates_migrated c') (errors c')] w3,
                          Inr (record_company company_name c' st))))))"

subsection \<open>\<^verbatim>\<open>migrate_all\<close>\<close>

definition stats0 :: stats where
  "stats0 = \<lparr>total_jobs = 0, total_dates = 0, total_errors = 0, by_company = []\<rparr>"

definition world0 :: world where
  "world0 = \<lparr>posted = [], printed = [], conn = NotConnected\<rparr>"

text \<open>One iteration of the loop over the sources: the \<^verbatim>\<open>try\<close> around
  \<^verbatim>\<open>migrate_company\<close> with its handler.\<close>

definition migrate_source :: "env \<Rightarrow> world \<times> stats \<Rightarrow> string \<Rightarrow> world \<times> stats" where
  "migrate_source e ws company_prefix =
     (case migrate_company e company_prefix ws of
        (w, Inr st) \<Rightarrow> (w, st)
      | (w, Inl err) \<Rightarrow>
          (say [MigrateError company_prefix err, Traceback err] w, snd ws))"

record outcome =
  exit_status :: nat
  final_world :: world
  final_stats :: stats

text \<open>\<^verbatim>\<open>connect_db\<close> leaves the process with status 1 when the connection
  fails. Otherwise the sources are migrated in the order of the keys of
  \<^verbatim>\<open>COMPANY_MAPPING\<close>, the connection is closed (the \<^verbatim>\<open>finally\<close> block),
  the summary is printed and the process ends with status 0.\<close>

definition migrate_all :: "env \<Rightarrow> outcome" where
  "migrate_all e =
     (if \<not> connects e
      then \<lparr>exit_status = 1, final_world = say [ConnectError] world0, final_stats = stats0\<rparr>
      else
        (let w0 = say [Connected] (world0\<lparr>conn := Open\<rparr>);
             ws = foldl (migrate_source e) (w0, stats0) (map fst COMPANY_MAPPING);
             w1 = (fst ws)\<lparr>conn := Closed\<rparr>;
             w2 = say [Summary (snd ws)] w1
         in \<lparr>exit_status = 0, final_world = w2, final_stats = snd ws\<rparr>))"

subsection \<open>The two queries\<close>

text \<open>
  The database is not part of the migrator; the text of its two queries is. This is
  what a server that runs them answers, for a table of listings (rows with a column
  \<^verbatim>\<open>id\<close>) and a table of date entries (each with its \<^verbatim>\<open>id\<close>, its
  \<^verbatim>\<open>job_id\<close> and its \<^verbatim>\<open>ScrapeDate\<close>). The order in which the server puts
  the values of a column is a parameter.
\<close>

type_synonym date_entry = "pyval \<times> pyval \<times> pyval"

text \<open>A row of the first query for a listing and one of its date entries
  (\<^verbatim>\<open>SELECT j.*, d.ScrapeDate, d.id as date_entry_id\<close>): the columns of the
  listing, with the scrape date and the identifier of the entry.\<close>

definition join_row :: "row \<Rightarrow> pyval \<times> pyval \<Rightarrow> row" where
  "join_row listing ev = listing(''ScrapeDate'' \<mapsto> snd ev, ''date_entry_id'' \<mapsto> fst ev)"

text \<open>\<^verbatim>\<open>ON d.job_id = j.id\<close>: null equals nothing.\<close>

definition on_clause :: "date_entry \<Rightarrow> row \<Rightarrow> bool" where
  "on_clause d j \<longleftrightarrow> fst (snd d) \<noteq> PNone \<and> j ''id'' = Some (fst (snd d))"

definition inner_join :: "row list \<Rightarrow> date_entry list \<Rightarrow> row list" where
  "inner_join listings entries =
     concat (map (\<lambda>d. map (\<lambda>j. join_row j (fst d, snd (snd d))) (filter (on_clause d) listings))
       entries)"

definition cell :: "row \<Rightarrow> string \<Rightarrow> pyval" where
  "cell r k = (case r k of None \<Rightarrow> PNone | Some v \<Rightarrow> v)"

text \<open>\<^verbatim>\<open>ORDER BY j.id, d.ScrapeDate\<close>, for the server's order \<open>le\<close> of values.\<close>

definition by_id_then_date :: "(pyval \<Rightarrow> pyval \<Rightarrow> bool) \<Rightarrow> row \<Rightarrow> row \<Rightarrow> bool" where
  "by_id_then_date le r r' \<longleftrightarrow>
     (le (cell r ''id'') (cell r' ''id'') \<and> \<not> le (cell r' ''id'') (cell r ''id''))
     \<or> (le (cell r ''id'') (cell r' ''id'') \<and> le (cell r' ''id'') (cell r ''id'')
         \<and> le (cell r ''ScrapeDate'') (cell r' ''ScrapeDate''))"

fun insert_by :: "('a \<Rightarrow> 'a \<Rightarrow> bool) \<Rightarrow> 'a \<Rightarrow> 'a list \<Rightarrow> 'a list" where
  "insert_by le x [] = [x]"
| "insert_by le x (y # ys) = (if le x y then x # y # ys else y # insert_by le x ys)"

definition order_by :: "('a \<Rightarrow> 'a \<Rightarrow> bool) \<Rightarrow> 'a list \<Rightarrow> 'a list" where
  "order_by le xs = foldr (insert_by le) xs []"

definition join_query :: "(pyval \<Rightarrow> pyval \<Rightarrow> bool) \<Rightarrow> row list \<Rightarrow> date_entry list \<Rightarrow> row list" where
  "join_query le listings entries = order_by (by_id_then_date le) (inner_join listings entries)"

text \<open>\<^verbatim>\<open>LEFT JOIN ... WHERE d.id IS NULL\<close>: the listings no date entry refers
  to.\<close>

definition dateless_query :: "row list \<Rightarrow> date_entry list \<Rightarrow> row list" where
  "dateless_query listings entries =
     filter (\<lambda>j. \<not> list_ex (\<lambda>d. on_clause d j) entries) listings"

subsection \<open>Notions the properties are stated with\<close>

text \<open>What a submission returns or raises, and the lines it prints, as functions of
  the response it gets.\<close>

definition submit_result :: "env \<Rightarrow> api_response \<Rightarrow> py_error + bool" where
  "submit_result e response =
     (case response of
        Raised carried \<Rightarrow> Inr False
      | Response status_code body \<Rightarrow>
          if raise_for_status status_code then Inr False
          else (case response_json e (body_seen status_code body) of
                  JsonValue \<Rightarrow> Inr True
                | JsonDecodeError \<Rightarrow> Inr False
                | JsonRaises err \<Rightarrow> Inl err))"

definition submit_lines :: "env \<Rightarrow> api_response \<Rightarrow> log_line list" where
  "submit_lines e response =
     (case response of
        Raised None \<Rightarrow> [InsertError]
      | Raised (Some text) \<Rightarrow> [InsertError, ResponseText text]
      | Response status_code body \<Rightarrow>
          if raise_for_status status_code
          then [InsertError, ResponseText (body_seen status_code body)]
          else (case response_json e (body_seen status_code body) of
                  JsonDecodeError \<Rightarrow> [InsertError]
                | _ \<Rightarrow> []))"

text \<open>The dates that came out of a list of parse results.\<close>

fun parsed :: "'a option list \<Rightarrow> 'a list" where
  "parsed [] = []"
| "parsed (None # xs) = parsed xs"
| "parsed (Some x # xs) = x # parsed xs"

text \<open>The requests one row of the join stands for; the exception a row of the
  join raises by itself, if one does; the listings that rows of the join count; the
  requests of the listings without date entries; and all the requests of a source
  that is migrated to its end.\<close>

definition row_posts :: "string \<Rightarrow> string \<Rightarrow> row \<Rightarrow> pydict list" where
  "row_posts p n r =
     (case scrape_date_of r of
        Inr (Some d) \<Rightarrow> [build_payload n (map_job_fields p r) d]
      | _ \<Rightarrow> [])"

fun dated_error :: "row list \<Rightarrow> py_error option" where
  "dated_error [] = None"
| "dated_error (r # rs) =
     (case scrape_date_of r of
        Inl err \<Rightarrow> Some err
      | Inr None \<Rightarrow> dated_error rs
      | Inr (Some d) \<Rightarrow> (case r ''id'' of None \<Rightarrow> Some KeyError | Some j \<Rightarrow> dated_error rs))"

definition row_job :: "row \<Rightarrow> pyval list" where
  "row_job r =
     (case scrape_date_of r of
        Inr (Some d) \<Rightarrow> (case r ''id'' of None \<Rightarrow> [] | Some j \<Rightarrow> [j])
      | _ \<Rightarrow> [])"

definition counted_jobs :: "row list \<Rightarrow> pyval set" where
  "counted_jobs rs = set (concat (map row_job rs))"

definition dateless_posts :: "env \<Rightarrow> string \<Rightarrow> string \<Rightarrow> row list \<Rightarrow> pydict list" where
  "dateless_posts e p n rs =
     map (\<lambda>r. build_payload n (map_job_fields p r) (dateless_date e (map_job_fields p r))) rs"

definition source_posts :: "env \<Rightarrow> string \<Rightarrow> pydict list" where
  "source_posts e p =
     (case map_of COMPANY_MAPPING p of
        None \<Rightarrow> []
      | Some n \<Rightarrow>
          (case fetch e p of
             None \<Rightarrow> []
           | Some (rs, ds) \<Rightarrow> concat (map (row_posts p n) rs) @ dateless_posts e p n ds))"

subsection \<open>Sample data\<close>

text \<open>Concrete rows and environments on which the theorems below are run.\<close>

definition sample_env :: env where
  "sample_env =
     \<lparr>connects = True,
      fetch = (\<lambda>p. None),
      responses = (\<lambda>n. Response 200 ''{}''),
      json_loads = (\<lambda>s. if s = ''{}'' then JsonValue else JsonDecodeError),
      today = \<lparr>year = 2026, month = 11, day = 3\<rparr>,
      fromisoformat = (\<lambda>s. None)\<rparr>"

definition row_unparseable :: row where
  "row_unparseable = [''id'' \<mapsto> PInt 7, ''Title'' \<mapsto> PStr ''Engineer'',
     ''ScrapeDate'' \<mapsto> PStr ''soon'']"

definition row_engineer :: row where
  "row_engineer = [''id'' \<mapsto> PInt 7, ''JobID'' \<mapsto> PStr ''42'',
     ''Title'' \<mapsto> PStr ''Engineer'', ''Level'' \<mapsto> PNone,
     ''ScrapeDate'' \<mapsto> PStr ''2023-01-15'']"

definition date_2023_01_15 :: date where
  "date_2023_01_15 = \<lparr>year = 2023, month = 1, day = 15\<rparr>"

definition env_server_error :: env where
  "env_server_error = sample_env\<lparr>responses := (\<lambda>n. Response 500 ''boom'')\<rparr>"

definition env_multiple_choices :: env where
  "env_multiple_choices = sample_env\<lparr>responses := (\<lambda>n. Response 300 ''{}'')\<rparr>"

definition env_bad_json :: env where
  "env_bad_json = sample_env\<lparr>responses := (\<lambda>n. Response 200 ''<html>'')\<rparr>"

definition deep_body :: string where
  "deep_body = replicate 100000 (CHR ''['')"

definition env_deep_json :: env where
  "env_deep_json = sample_env\<lparr>responses := (\<lambda>n. Response 200 deep_body),
     json_loads := (\<lambda>s. if s = deep_body then JsonRaises RecursionError
                          else if s = ''{}'' then JsonValue else JsonDecodeError)\<rparr>"

definition env_one_row :: env where
  "env_one_row = sample_env\<lparr>fetch :=
      (\<lambda>p. if p = ''kls'' then Some ([row_engineer], []) else None)\<rparr>"

text \<open>The rows of the join that belong to one listing, and the date the scrape date
  of a date entry stands for: none when it does not parse or is no text.\<close>
definition listing_rows :: "pyval \<Rightarrow> row list \<Rightarrow> row list" where
  "listing_rows L rows = filter (\<lambda>r. r ''id'' = Some L) rows"

definition event_date :: "row \<Rightarrow> pyval \<times> pyval \<Rightarrow> date option" where
  "event_date listing ev =
     (case scrape_date_of (join_row listing ev) of Inr od \<Rightarrow> od | Inl err \<Rightarrow> None)"

definition listing_engineer :: row where
  "listing_engineer = [''id'' \<mapsto> PInt 7, ''JobID'' \<mapsto> PStr ''42'',
     ''Title'' \<mapsto> PStr ''Engineer'', ''Level'' \<mapsto> PNone]"

definition date_2023_02_01 :: date where
  "date_2023_02_01 = \<lparr>year = 2023, month = 2, day = 1\<rparr>"

definition env_two_events :: env where
  "env_two_events = sample_env\<lparr>fetch :=
      (\<lambda>p. if p = ''kls''
           then Some (map (join_row listing_engineer)
                        [(PInt 1, PStr ''2023-01-15''), (PInt 2, PStr ''01.02.2023'')], [])
           else None)\<rparr>"

definition env_unparseable_event :: env where
  "env_unparseable_event = sample_env\<lparr>fetch :=
      (\<lambda>p. if p = ''kls''
           then Some (map (join_row listing_engineer) [(PInt 1, PStr ''soon'')], [])
           else None)\<rparr>"

definition env_date_cell :: env where
  "env_date_cell = sample_env\<lparr>fetch :=
      (\<lambda>p. if p = ''kls''
           then Some (map (join_row listing_engineer)
                        [(PInt 1, PDate \<lparr>year = 2023, month = 1, day = 15\<rparr>),
                         (PInt 2, PStr ''2023-01-15'')], [])
           else None)\<rparr>"

definition env_date_known :: env where
  "env_date_known = sample_env\<lparr>fromisoformat :=
      (\<lambda>s. if s = ''2023-01-15'' then Some \<lparr>year = 2023, month = 1, day = 15\<rparr> else None)\<rparr>"

definition row_dateless :: row where
  "row_dateless = [''id'' \<mapsto> PInt 8, ''Title'' \<mapsto> PStr ''Boss'',
     ''DateAdded'' \<mapsto> PStr ''15.01.2023'']"

definition env_dateless_known :: env where
  "env_dateless_known = env_date_known\<lparr>fetch :=
      (\<lambda>p. if p = ''kls'' then Some ([], [row_dateless, listing_engineer]) else None)\<rparr>"

definition env_date_cell_dateless :: env where
  "env_date_cell_dateless = sample_env\<lparr>fetch :=
      (\<lambda>p. if p = ''kls''
           then Some ([join_row listing_engineer
                         (PInt 1, PDate \<lparr>year = 2023, month = 1, day = 15\<rparr>)],
                      [row_dateless])
           else None)\<rparr>"




section \<open>Properties\<close>

subsection \<open>Basic facts\<close>

lemma posted_say [simp]: "posted (say ls w) = posted w"
  by (simp add: say_def)

lemma printed_say [simp]: "printed (say ls w) = printed w @ ls"
  by (simp add: say_def)

lemma conn_say [simp]: "conn (say ls w) = conn w"
  by (simp add: say_def)

lemma scrape_date_of_upd:
  "k \<noteq> ''ScrapeDate'' \<Longrightarrow> scrape_date_of (r(k := v)) = scrape_date_of r"
  by (simp add: scrape_date_of_def)

lemma parse_date_cell_error: "parse_date_cell v = Inl err \<Longrightarrow> err = AttributeError"
  by (cases v) (auto split: if_splits)

lemma scrape_date_of_error: "scrape_date_of r = Inl err \<Longrightarrow> err = AttributeError"
  by (auto simp: scrape_date_of_def split: option.splits if_splits
      dest: parse_date_cell_error)

lemmas parse_eval =
  parse_date_def formats_def strip_def is_space_def strptime_def directive_def
  is_digit_def group_def py_int_def digit_val_def valid_date_def valid_time_def
  days_in_month_def is_leap_def

subsection \<open>Rows whose scrape date does not parse\<close>

text \<open>
  C1. A row of the join from whose \<^verbatim>\<open>ScrapeDate\<close> cell no date comes out (the
  cell is missing, null, empty, a string that no format parses, or not a string at
  all) sends no request and leaves the connection as it is. The counters come back
  unchanged when the parser returned no value (the row is skipped and the loop goes
  on); a cell that is not a string raises \<^verbatim>\<open>AttributeError\<close> instead, which
  ends the source. Nothing of the outcome depends on the environment (the current
  date among it) or on the row's \<^verbatim>\<open>DateAdded\<close> cell: the fallback of the source
  is never run.
\<close>

theorem unparseable_scrape_date_skips_row:
  assumes "\<forall>d. scrape_date_of r \<noteq> Inr (Some d)"
  shows "posted (fst (dated_row e company_prefix company_name (w, c) r)) = posted w
    \<and> conn (fst (dated_row e company_prefix company_name (w, c) r)) = conn w
    \<and> snd (dated_row e company_prefix company_name (w, c) r) \<in> {Inr c, Inl AttributeError}
    \<and> (scrape_date_of r = Inr None \<longrightarrow>
         snd (dated_row e company_prefix company_name (w, c) r) = Inr c)
    \<and> dated_row e' company_prefix company_name (w, c) (r(''DateAdded'' := v))
        = dated_row e company_prefix company_name (w, c) r"
proof (cases "scrape_date_of r")
  case (Inl err)
  then have "err = AttributeError" by (rule scrape_date_of_error)
  with Inl show ?thesis
    by (simp add: dated_row_def scrape_date_of_upd)
next
  case (Inr od)
  with assms have "od = None" by (cases od) auto
  with Inr show ?thesis
    by (simp add: dated_row_def scrape_date_of_upd)
qed

theorem unparseable_scrape_date_skips_row_witness:
  "scrape_date_of row_unparseable = Inr None
   \<and> posted (fst (dated_row sample_env ''kls'' ''KLS'' (world0, counters0) row_unparseable)) = []
   \<and> snd (dated_row sample_env ''kls'' ''KLS'' (world0, counters0) row_unparseable)
       = Inr counters0"
proof -
  have none: "scrape_date_of row_unparseable = Inr None"
    by (simp add: scrape_date_of_def row_unparseable_def parse_eval)
  then have "\<forall>d. scrape_date_of row_unparseable \<noteq> Inr (Some d)" by simp
  from unparseable_scrape_date_skips_row [OF this, of sample_env "''kls''" "''KLS''"
      world0 counters0] none
  show ?thesis by (simp add: world0_def)
qed

subsection \<open>Field mapping\<close>

lemma set_update_subset:
  "(k, v) \<in> set (AList.update k' v' al) \<Longrightarrow> (k, v) = (k', v') \<or> (k, v) \<in> set al"
  by (induction al) (auto split: if_splits)

lemma map_field_entry:
  assumes "(k, v) \<in> set (map_field r fm new_data)"
  shows "(k, v) \<in> set new_data
     \<or> (k = snd fm \<and> (\<exists>cell. r (fst fm) = Some cell \<and> cell \<noteq> PNone) \<and> (\<exists>s. v = JStr s))"
  using assms
  by (auto simp: map_field_def Let_def split: option.splits if_splits pyval.splits
      dest!: set_update_subset)

lemma map_fields_entry:
  assumes "(k, v) \<in> set (foldl (\<lambda>new_data fm. map_field r fm new_data) acc fms)"
  shows "(k, v) \<in> set acc
     \<or> (\<exists>old cell. (old, k) \<in> set fms \<and> r old = Some cell \<and> cell \<noteq> PNone)
        \<and> (\<exists>s. v = JStr s)"
  using assms
proof (induction fms arbitrary: acc)
  case Nil
  then show ?case by simp
next
  case (Cons fm fms)
  from Cons.prems
  have "(k, v) \<in> set (foldl (\<lambda>new_data fm. map_field r fm new_data) (map_field r fm acc) fms)"
    by simp
  from Cons.IH [OF this] show ?case
  proof
    assume "(k, v) \<in> set (map_field r fm acc)"
    from map_field_entry [OF this] show ?thesis
      by (cases fm) auto
  next
    assume "(\<exists>old cell. (old, k) \<in> set fms \<and> r old = Some cell \<and> cell \<noteq> PNone)
      \<and> (\<exists>s. v = JStr s)"
    then show ?thesis by auto
  qed
qed

lemma map_job_fields_entry:
  assumes "(k, v) \<in> set (map_job_fields company_prefix r)"
  shows "(\<exists>old cell. (old, k) \<in> set (field_mapping company_prefix)
            \<and> r old = Some cell \<and> cell \<noteq> PNone)
         \<and> (\<exists>s. v = JStr s)"
  using map_fields_entry [of k v r "[]" "field_mapping company_prefix"] assms
  by (simp add: map_job_fields_def)

text \<open>
  C6. Every entry of the mapped fields comes from a column that the mapping of the
  source lists and that the row holds with a value other than null, and its value
  is a string. So a target key all of whose source columns are absent from the row
  or null is no key of the result.
\<close>

theorem map_job_fields_present_columns_only:
  "(\<forall>v. (k, v) \<in> set (map_job_fields company_prefix r) \<longrightarrow>
      (\<exists>old cell. (old, k) \<in> set (field_mapping company_prefix)
         \<and> r old = Some cell \<and> cell \<noteq> PNone)
      \<and> (\<exists>s. v = JStr s))
   \<and> ((\<forall>old. (old, k) \<in> set (field_mapping company_prefix) \<longrightarrow>
          r old = None \<or> r old = Some PNone)
       \<longrightarrow> k \<notin> fst ` set (map_job_fields company_prefix r))"
proof (intro conjI allI impI)
  fix v assume "(k, v) \<in> set (map_job_fields company_prefix r)"
  from map_job_fields_entry [OF this]
  show "\<exists>old cell. (old, k) \<in> set (field_mapping company_prefix)
         \<and> r old = Some cell \<and> cell \<noteq> PNone" by blast
next
  fix v assume "(k, v) \<in> set (map_job_fields company_prefix r)"
  from map_job_fields_entry [OF this] show "\<exists>s. v = JStr s" by blast
next
  assume h: "\<forall>old. (old, k) \<in> set (field_mapping company_prefix) \<longrightarrow>
          r old = None \<or> r old = Some PNone"
  show "k \<notin> fst ` set (map_job_fields company_prefix r)"
  proof
    assume "k \<in> fst ` set (map_job_fields company_prefix r)"
    then obtain v where "(k, v) \<in> set (map_job_fields company_prefix r)" by auto
    from map_job_fields_entry [OF this] h show False by force
  qed
qed

lemma map_job_fields_engineer:
  "map_job_fields ''kls'' row_engineer = [(''title'', JStr ''Engineer''), (''job_id'', JStr ''42'')]"
  by (simp add: map_job_fields_def field_mapping_def FIELD_MAPPINGS_def map_field_def
      row_engineer_def)

theorem map_job_fields_present_columns_only_witness:
  "(''title'', JStr ''Engineer'') \<in> set (map_job_fields ''kls'' row_engineer)
   \<and> (\<exists>old cell. (old, ''title'') \<in> set (field_mapping ''kls'')
         \<and> row_engineer old = Some cell \<and> cell \<noteq> PNone)
   \<and> row_engineer ''Level'' = Some PNone
   \<and> ''level'' \<notin> fst ` set (map_job_fields ''kls'' row_engineer)"
proof -
  have m: "(''title'', JStr ''Engineer'') \<in> set (map_job_fields ''kls'' row_engineer)"
    by (simp add: map_job_fields_engineer)
  have l: "row_engineer ''Level'' = Some PNone"
    by (simp add: row_engineer_def)
  have "\<forall>old. (old, ''level'') \<in> set (field_mapping ''kls'') \<longrightarrow>
          row_engineer old = None \<or> row_engineer old = Some PNone"
    by (auto simp: field_mapping_def FIELD_MAPPINGS_def row_engineer_def)
  with map_job_fields_present_columns_only [of "''level''" "''kls''" row_engineer]
  have "''level'' \<notin> fst ` set (map_job_fields ''kls'' row_engineer)" by blast
  moreover from map_job_fields_present_columns_only [of "''title''" "''kls''" row_engineer] m
  have "\<exists>old cell. (old, ''title'') \<in> set (field_mapping ''kls'')
         \<and> row_engineer old = Some cell \<and> cell \<noteq> PNone" by blast
  ultimately show ?thesis using m l by blast
qed

subsection \<open>Payloads\<close>

lemma FIELD_MAPPINGS_names:
  "\<forall>pm \<in> set FIELD_MAPPINGS. \<forall>fm \<in> set (snd pm).
     snd fm \<noteq> ''company_name'' \<and> snd fm \<noteq> ''hidden'' \<and> snd fm \<noteq> ''scrape_date''
     \<and> fst fm \<noteq> ''ScrapeDate'' \<and> fst fm \<noteq> ''date_entry_id'' \<and> fst fm \<noteq> ''id''"
  by (simp add: FIELD_MAPPINGS_def)

lemma field_mapping_names:
  assumes "(old, k) \<in> set (field_mapping company_prefix)"
  shows "k \<noteq> ''company_name'' \<and> k \<noteq> ''hidden'' \<and> k \<noteq> ''scrape_date''
     \<and> old \<noteq> ''ScrapeDate'' \<and> old \<noteq> ''date_entry_id'' \<and> old \<noteq> ''id''"
proof (cases "map_of FIELD_MAPPINGS company_prefix")
  case None
  with assms show ?thesis by (simp add: field_mapping_def)
next
  case (Some m)
  then have "(company_prefix, m) \<in> set FIELD_MAPPINGS" by (rule map_of_SomeD)
  moreover from Some assms have "(old, k) \<in> set m" by (simp add: field_mapping_def)
  ultimately show ?thesis using FIELD_MAPPINGS_names by fastforce
qed

lemma map_job_fields_keys:
  assumes "k \<in> fst ` set (map_job_fields company_prefix r)"
  shows "k \<noteq> ''company_name'' \<and> k \<noteq> ''hidden'' \<and> k \<noteq> ''scrape_date''"
proof -
  from assms obtain v where "(k, v) \<in> set (map_job_fields company_prefix r)" by auto
  from map_job_fields_entry [OF this] obtain old
    where "(old, k) \<in> set (field_mapping company_prefix)" by blast
  from field_mapping_names [OF this] show ?thesis by simp
qed

lemma map_of_assign_other:
  "k \<notin> fst ` set jd \<Longrightarrow>
     map_of (foldl (\<lambda>p kv. AList.update (fst kv) (snd kv) p) base jd) k = map_of base k"
  by (induction jd arbitrary: base) (auto simp: update_conv')

lemma map_of_filter_keep:
  "map_of al k = Some v \<Longrightarrow> P (k, v) \<Longrightarrow> map_of (filter P al) k = Some v"
  by (induction al) (auto split: if_splits)

lemma build_payload_fixed:
  assumes "\<forall>k \<in> fst ` set jd. k \<noteq> ''company_name'' \<and> k \<noteq> ''hidden'' \<and> k \<noteq> ''scrape_date''"
  shows "map_of (build_payload n jd d) ''company_name'' = Some (JStr n)"
    and "map_of (build_payload n jd d) ''hidden'' = Some (JBool (n \<in> HIDDEN_COMPANIES))"
    and "map_of (build_payload n jd d) ''scrape_date'' = Some (JStr (isoformat d))"
proof -
  have a: "''company_name'' \<notin> fst ` set jd" "''hidden'' \<notin> fst ` set jd"
    "''scrape_date'' \<notin> fst ` set jd"
    using assms by blast+
  show "map_of (build_payload n jd d) ''company_name'' = Some (JStr n)"
    unfolding build_payload_def Let_def
    by (rule map_of_filter_keep) (simp_all add: map_of_assign_other [OF a(1)])
  show "map_of (build_payload n jd d) ''hidden'' = Some (JBool (n \<in> HIDDEN_COMPANIES))"
    unfolding build_payload_def Let_def
    by (rule map_of_filter_keep) (simp_all add: map_of_assign_other [OF a(2)])
  show "map_of (build_payload n jd d) ''scrape_date'' = Some (JStr (isoformat d))"
    unfolding build_payload_def Let_def
    by (rule map_of_filter_keep) (simp_all add: map_of_assign_other [OF a(3)])
qed

lemmas payload_fixed = build_payload_fixed [OF ballI, OF map_job_fields_keys]

subsection \<open>Submissions\<close>

lemma insert_job_via_api_eq:
  "insert_job_via_api e n jd d w =
     (say (submit_lines e (responses e (length (posted w))))
        (w\<lparr>posted := posted w @ [build_payload n jd d]\<rparr>),
      submit_result e (responses e (length (posted w))))"
  by (simp add: insert_job_via_api_def submit_lines_def submit_result_def Let_def
      split: api_response.splits option.splits json_outcome.splits)

lemma posted_insert [simp]:
  "posted (fst (insert_job_via_api e n jd d w)) = posted w @ [build_payload n jd d]"
  by (simp add: insert_job_via_api_eq)

lemma conn_insert [simp]: "conn (fst (insert_job_via_api e n jd d w)) = conn w"
  by (simp add: insert_job_via_api_eq)

lemma printed_insert [simp]:
  "printed (fst (insert_job_via_api e n jd d w))
     = printed w @ submit_lines e (responses e (length (posted w)))"
  by (simp add: insert_job_via_api_eq)

lemma snd_insert [simp]:
  "snd (insert_job_via_api e n jd d w) = submit_result e (responses e (length (posted w)))"
  by (simp add: insert_job_via_api_eq)

lemma count_submit_lines:
  "count_list (submit_lines e response) InsertError
     = (if submit_result e response = Inr False then 1 else 0)"
  by (simp add: submit_lines_def submit_result_def
      split: api_response.splits option.splits json_outcome.splits)

lemma dated_row_skips:
  "scrape_date_of r = Inr None \<Longrightarrow>
     dated_row e p n (w, c) r = (say [SkipWarning (r ''ScrapeDate'')] w, Inr c)"
  by (simp add: dated_row_def)

lemma dated_row_raises:
  "scrape_date_of r = Inl err \<Longrightarrow> dated_row e p n (w, c) r = (w, Inl err)"
  by (simp add: dated_row_def)

lemma dated_row_submit_raises:
  assumes "scrape_date_of r = Inr (Some d)"
    and "submit_result e (responses e (length (posted w))) = Inl err"
  shows "dated_row e p n (w, c) r
     = (fst (insert_job_via_api e n (map_job_fields p r) d w), Inl err)"
  using assms by (simp add: dated_row_def Let_def insert_job_via_api_eq)

lemma dated_row_no_id:
  assumes "scrape_date_of r = Inr (Some d)" and "r ''id'' = None"
    and "submit_result e (responses e (length (posted w))) = Inr ok"
  shows "dated_row e p n (w, c) r
     = (fst (insert_job_via_api e n (map_job_fields p r) d w), Inl KeyError)"
  using assms by (simp add: dated_row_def Let_def insert_job_via_api_eq)

lemma dated_row_submits:
  assumes "scrape_date_of r = Inr (Some d)" and "r ''id'' = Some j"
    and "submit_result e (responses e (length (posted w))) = Inr ok"
  shows "\<exists>w' c' ls. dated_row e p n (w, c) r = (w', Inr c')
     \<and> posted w' = posted w @ [build_payload n (map_job_fields p r) d]
     \<and> conn w' = conn w
     \<and> printed w' = printed w @ ls
     \<and> count_list ls InsertError = (if ok then 0 else 1)
     \<and> dates_migrated c' = dates_migrated c + (if ok then 1 else 0)
     \<and> errors c' = errors c + (if ok then 0 else 1)
     \<and> jobs_migrated c' = jobs_migrated c + (if j \<in> processed_jobs c then 0 else 1)
     \<and> processed_jobs c' = insert j (processed_jobs c)"
proof -
  from assms(3) have n: "count_list (submit_lines e (responses e (length (posted w)))) InsertError
      = (if ok then 0 else 1)"
    by (simp add: count_submit_lines)
  show ?thesis
    using assms n
    by (auto simp: dated_row_def Let_def insert_job_via_api_eq say_def)
qed

lemma dateless_row_submit_raises:
  assumes "submit_result e (responses e (length (posted w))) = Inl err"
  shows "dateless_row e p n (w, c) r
     = (fst (insert_job_via_api e n (map_job_fields p r)
           (dateless_date e (map_job_fields p r)) w), Inl err)"
  using assms by (simp add: dateless_row_def Let_def insert_job_via_api_eq)

lemma dateless_row_submits:
  assumes "submit_result e (responses e (length (posted w))) = Inr ok"
  shows "\<exists>w' c' ls. dateless_row e p n (w, c) r = (w', Inr c')
     \<and> posted w' = posted w
         @ [build_payload n (map_job_fields p r) (dateless_date e (map_job_fields p r))]
     \<and> conn w' = conn w
     \<and> printed w' = printed w @ ls
     \<and> count_list ls InsertError = (if ok then 0 else 1)
     \<and> dates_migrated c' = dates_migrated c + (if ok then 1 else 0)
     \<and> errors c' = errors c + (if ok then 0 else 1)
     \<and> jobs_migrated c' = jobs_migrated c + 1
     \<and> processed_jobs c' = processed_jobs c"
proof -
  from assms have n: "count_list (submit_lines e (responses e (length (posted w)))) InsertError
      = (if ok then 0 else 1)"
    by (simp add: count_submit_lines)
  show ?thesis
    using assms n
    by (auto simp: dateless_row_def Let_def insert_job_via_api_eq say_def)
qed

lemma dated_rows_step:
  "dated_row e p n wc r = (w', Inr c') \<Longrightarrow>
     dated_rows e p n (r # rs) wc = dated_rows e p n rs (w', c')"
  by simp

lemma dateless_rows_step:
  "dateless_row e p n wc r = (w', Inr c') \<Longrightarrow>
     dateless_rows e p n (r # rs) wc = dateless_rows e p n rs (w', c')"
  by simp

lemma failed_submission_step:
  assumes "submit_result e (responses e (length (posted w))) = Inr False"
  shows "(scrape_date_of r = Inr (Some d) \<and> r ''id'' = Some j \<longrightarrow>
         (\<exists>w' c'. dated_row e p n (w, c) r = (w', Inr c')
            \<and> errors c' = errors c + 1 \<and> dates_migrated c' = dates_migrated c
            \<and> dated_rows e p n (r # rs) (w, c) = dated_rows e p n rs (w', c')))
    \<and> (\<exists>w' c'. dateless_row e p n (w, c) r = (w', Inr c')
            \<and> errors c' = errors c + 1 \<and> dates_migrated c' = dates_migrated c
            \<and> dateless_rows e p n (r # rs) (w, c) = dateless_rows e p n rs (w', c'))"
proof (intro conjI impI)
  assume "scrape_date_of r = Inr (Some d) \<and> r ''id'' = Some j"
  with dated_row_submits [of r d j e w False p n c] assms obtain w' c'
    where s: "dated_row e p n (w, c) r = (w', Inr c')"
      and "errors c' = errors c + 1" "dates_migrated c' = dates_migrated c"
    by auto
  with dated_rows_step [OF s]
  show "\<exists>w' c'. dated_row e p n (w, c) r = (w', Inr c')
            \<and> errors c' = errors c + 1 \<and> dates_migrated c' = dates_migrated c
            \<and> dated_rows e p n (r # rs) (w, c) = dated_rows e p n rs (w', c')"
    by blast
next
  from dateless_row_submits [OF assms, of p n c r] obtain w' c'
    where s: "dateless_row e p n (w, c) r = (w', Inr c')"
      and "errors c' = errors c + 1" "dates_migrated c' = dates_migrated c"
    by auto
  with dateless_rows_step [OF s]
  show "\<exists>w' c'. dateless_row e p n (w, c) r = (w', Inr c')
            \<and> errors c' = errors c + 1 \<and> dates_migrated c' = dates_migrated c
            \<and> dateless_rows e p n (r # rs) (w, c) = dateless_rows e p n rs (w', c')"
    by blast
qed

text \<open>
  C5, as amended. When the request raises a \<^verbatim>\<open>RequestException\<close> (with or
  without a response), or gets a response with a status from 400 to 599, the
  submission returns false without raising and prints the error, followed by the
  text of the response when there is one. The loop that called it (either one) adds
  one to the error counter, leaves the counter of migrated dates alone and goes on
  with the next row.
\<close>

theorem failed_submission_counts_error:
  assumes "(\<exists>carried. responses e (length (posted w)) = Raised carried)
     \<or> (\<exists>st body. responses e (length (posted w)) = Response st body
           \<and> 400 \<le> st \<and> st < 600)"
  shows "snd (insert_job_via_api e n jd d' w) = Inr False
    \<and> printed (fst (insert_job_via_api e n jd d' w)) = printed w @ InsertError #
         (case responses e (length (posted w)) of
            Raised None \<Rightarrow> []
          | Raised (Some text) \<Rightarrow> [ResponseText text]
          | Response st body \<Rightarrow> [ResponseText (body_seen st body)])
    \<and> (scrape_date_of r = Inr (Some d) \<and> r ''id'' = Some j \<longrightarrow>
         (\<exists>w' c'. dated_row e p n (w, c) r = (w', Inr c')
            \<and> errors c' = errors c + 1 \<and> dates_migrated c' = dates_migrated c
            \<and> dated_rows e p n (r # rs) (w, c) = dated_rows e p n rs (w', c')))
    \<and> (\<exists>w' c'. dateless_row e p n (w, c) r = (w', Inr c')
            \<and> errors c' = errors c + 1 \<and> dates_migrated c' = dates_migrated c
            \<and> dateless_rows e p n (r # rs) (w, c) = dateless_rows e p n rs (w', c'))"
proof -
  from assms have f: "submit_result e (responses e (length (posted w))) = Inr False"
    by (auto simp: submit_result_def raise_for_status_def)
  from assms have l: "submit_lines e (responses e (length (posted w))) = InsertError #
         (case responses e (length (posted w)) of
            Raised None \<Rightarrow> []
          | Raised (Some text) \<Rightarrow> [ResponseText text]
          | Response st body \<Rightarrow> [ResponseText (body_seen st body)])"
    by (auto simp: submit_lines_def raise_for_status_def split: option.splits)
  from f l failed_submission_step [OF f, of r d j p n c rs] show ?thesis
    by simp
qed

lemma scrape_date_engineer: "scrape_date_of row_engineer = Inr (Some date_2023_01_15)"
  by (simp add: scrape_date_of_def row_engineer_def parse_eval date_2023_01_15_def)

lemma id_engineer: "row_engineer ''id'' = Some (PInt 7)"
  by (simp add: row_engineer_def)

theorem failed_submission_counts_error_witness:
  "responses env_server_error (length (posted world0)) = Response 500 ''boom''
   \<and> snd (insert_job_via_api env_server_error ''KLS'' [] date_2023_01_15 world0) = Inr False
   \<and> printed (fst (insert_job_via_api env_server_error ''KLS'' [] date_2023_01_15 world0))
       = [InsertError, ResponseText ''boom'']
   \<and> (\<exists>w' c'. dated_row env_server_error ''kls'' ''KLS'' (world0, counters0) row_engineer
         = (w', Inr c') \<and> errors c' = 1 \<and> dates_migrated c' = 0)"
proof -
  have r: "responses env_server_error (length (posted world0)) = Response 500 ''boom''"
    by (simp add: env_server_error_def sample_env_def)
  then have "(\<exists>carried. responses env_server_error (length (posted world0)) = Raised carried)
     \<or> (\<exists>st body. responses env_server_error (length (posted world0)) = Response st body
           \<and> 400 \<le> st \<and> st < 600)"
    by auto
  from failed_submission_counts_error [OF this, of "''KLS''" "[]" date_2023_01_15
      row_engineer date_2023_01_15 "PInt 7" "''kls''" counters0 "[]"]
    r scrape_date_engineer id_engineer
  show ?thesis
    by (auto simp: world0_def counters0_def body_seen_def)
qed

text \<open>
  The claim as stated speaks of every status outside 200 to 299. A response with
  status 300 and a JSON body is a success for the code: \<^verbatim>\<open>raise_for_status\<close>
  raises for 400 to 599 only.
\<close>

theorem non_2xx_status_can_succeed:
  "responses env_multiple_choices (length (posted world0)) = Response 300 ''{}''
   \<and> \<not> (200 \<le> (300::nat) \<and> (300::nat) < 300)
   \<and> snd (insert_job_via_api env_multiple_choices ''KLS''
        (map_job_fields ''kls'' row_engineer) date_2023_01_15 world0) = Inr True
   \<and> (\<exists>w' c'. dated_row env_multiple_choices ''kls'' ''KLS'' (world0, counters0) row_engineer
         = (w', Inr c') \<and> errors c' = 0 \<and> dates_migrated c' = 1)"
proof -
  have r: "responses env_multiple_choices (length (posted world0)) = Response 300 ''{}''"
    by (simp add: env_multiple_choices_def sample_env_def)
  then have ok: "submit_result env_multiple_choices
      (responses env_multiple_choices (length (posted world0))) = Inr True"
    by (simp add: submit_result_def raise_for_status_def body_seen_def response_json_def
        env_multiple_choices_def sample_env_def)
  from dated_row_submits [OF scrape_date_engineer id_engineer ok, of "''kls''" "''KLS''"
      counters0]
  show ?thesis using r ok by (auto simp: counters0_def)
qed

text \<open>
  C10, as amended. A response with a status from 200 to 299 whose text the decoder
  rejects with a decoding error (the empty text of a 204 among them) makes the
  submission return false: the error is a \<^verbatim>\<open>RequestException\<close> and is caught
  with the others; it carries no response, so no text is printed. The caller counts
  an error and no migrated date.
\<close>

theorem invalid_json_body_counts_error:
  assumes "responses e (length (posted w)) = Response st body"
    and "200 \<le> st" and "st < 300"
    and "response_json e (body_seen st body) = JsonDecodeError"
  shows "snd (insert_job_via_api e n jd d' w) = Inr False
    \<and> printed (fst (insert_job_via_api e n jd d' w)) = printed w @ [InsertError]
    \<and> (scrape_date_of r = Inr (Some d) \<and> r ''id'' = Some j \<longrightarrow>
         (\<exists>w' c'. dated_row e p n (w, c) r = (w', Inr c')
            \<and> errors c' = errors c + 1 \<and> dates_migrated c' = dates_migrated c
            \<and> dated_rows e p n (r # rs) (w, c) = dated_rows e p n rs (w', c')))
    \<and> (\<exists>w' c'. dateless_row e p n (w, c) r = (w', Inr c')
            \<and> errors c' = errors c + 1 \<and> dates_migrated c' = dates_migrated c
            \<and> dateless_rows e p n (r # rs) (w, c) = dateless_rows e p n rs (w', c'))"
proof -
  from assms have f: "submit_result e (responses e (length (posted w))) = Inr False"
    by (simp add: submit_result_def raise_for_status_def)
  from assms have l: "submit_lines e (responses e (length (posted w))) = [InsertError]"
    by (simp add: submit_lines_def raise_for_status_def)
  from f l failed_submission_step [OF f, of r d j p n c rs] show ?thesis
    by simp
qed

theorem invalid_json_body_counts_error_witness:
  "responses env_bad_json (length (posted world0)) = Response 200 ''<html>''
   \<and> response_json env_bad_json (body_seen 200 ''<html>'') = JsonDecodeError
   \<and> snd (insert_job_via_api env_bad_json ''KLS'' [] date_2023_01_15 world0) = Inr False
   \<and> (\<exists>w' c'. dated_row env_bad_json ''kls'' ''KLS'' (world0, counters0) row_engineer
         = (w', Inr c') \<and> errors c' = 1 \<and> dates_migrated c' = 0)"
proof -
  have r: "responses env_bad_json (length (posted world0)) = Response 200 ''<html>''"
    by (simp add: env_bad_json_def sample_env_def)
  have j: "response_json env_bad_json (body_seen 200 ''<html>'') = JsonDecodeError"
    by (simp add: response_json_def body_seen_def env_bad_json_def sample_env_def)
  from invalid_json_body_counts_error [OF r _ _ j, of "''KLS''" "[]" date_2023_01_15
      row_engineer date_2023_01_15 "PInt 7" "''kls''" counters0 "[]"]
    r j scrape_date_engineer id_engineer
  show ?thesis
    by (auto simp: counters0_def)
qed

lemma deep_body_not_empty: "deep_body \<noteq> []"
  by (simp add: deep_body_def)

text \<open>
  The claim as stated covers every body that is not valid JSON. On a text of a
  hundred thousand opening brackets the decoder raises \<^verbatim>\<open>RecursionError\<close>,
  which is no \<^verbatim>\<open>RequestException\<close>: the submission raises, no error is counted,
  and the exception ends the source.
\<close>

theorem json_error_can_escape:
  "responses env_deep_json (length (posted world0)) = Response 200 deep_body
   \<and> response_json env_deep_json (body_seen 200 deep_body) = JsonRaises RecursionError
   \<and> snd (insert_job_via_api env_deep_json ''KLS''
        (map_job_fields ''kls'' row_engineer) date_2023_01_15 world0) = Inl RecursionError
   \<and> snd (dated_row env_deep_json ''kls'' ''KLS'' (world0, counters0) row_engineer)
       = Inl RecursionError
   \<and> snd (dated_rows env_deep_json ''kls'' ''KLS'' [row_engineer, row_engineer]
        (world0, counters0)) = Inl RecursionError"
proof -
  have r: "responses env_deep_json (length (posted world0)) = Response 200 deep_body"
    by (simp add: env_deep_json_def)
  have j: "response_json env_deep_json (body_seen 200 deep_body) = JsonRaises RecursionError"
    by (simp add: response_json_def body_seen_def env_deep_json_def deep_body_not_empty)
  from r j have s: "submit_result env_deep_json
      (responses env_deep_json (length (posted world0))) = Inl RecursionError"
    by (simp add: submit_result_def raise_for_status_def)
  from dated_row_submit_raises [OF scrape_date_engineer s, of "''kls''" "''KLS''" counters0]
  show ?thesis using r j s by simp
qed

subsection \<open>One row of the join\<close>

lemma posted_dated_row:
  "posted (fst (dated_row e p n (w, c) r)) = posted w @ row_posts p n r"
  by (simp add: dated_row_def row_posts_def insert_job_via_api_eq Let_def
      split: sum.splits option.splits)

lemma conn_dated_row: "conn (fst (dated_row e p n (w, c) r)) = conn w"
  by (simp add: dated_row_def insert_job_via_api_eq Let_def
      split: sum.splits option.splits)

lemma printed_dated_row: "prefix (printed w) (printed (fst (dated_row e p n (w, c) r)))"
  by (simp add: dated_row_def insert_job_via_api_eq Let_def
      split: sum.splits option.splits)

lemma card_single_diff: "card ({j} - P) = (if j \<in> P then 0 else 1)"
proof (cases "j \<in> P")
  case True
  then have "{j} - P = {}" by auto
  with True show ?thesis by simp
next
  case False
  then have "{j} - P = {j}" by auto
  with False show ?thesis by simp
qed

lemma dated_row_Inr:
  assumes "dated_row e p n (w, c) r = (w1, Inr c1)"
  shows "errors c1 + count_list (printed w) InsertError
         = errors c + count_list (printed w1) InsertError"
    and "jobs_migrated c1 = jobs_migrated c + card (set (row_job r) - processed_jobs c)"
    and "processed_jobs c1 = processed_jobs c \<union> set (row_job r)"
    and "dates_migrated c1 + errors c1
         = dates_migrated c + errors c + length (row_posts p n r)"
    and "dated_error [r] = None"
  using assms
  by (auto simp: dated_row_def row_posts_def row_job_def insert_job_via_api_eq Let_def
      count_submit_lines card_single_diff split: sum.splits option.splits if_splits)

subsection \<open>A source that is migrated to its end\<close>

lemma counted_jobs_Cons: "counted_jobs (r # rs) = set (row_job r) \<union> counted_jobs rs"
  by (simp add: counted_jobs_def)

lemma finite_counted_jobs [simp]: "finite (counted_jobs rs)"
  by (simp add: counted_jobs_def)

lemma card_counted_step:
  assumes "finite A" and "finite B"
  shows "card (A - P) + card (B - (P \<union> A)) = card ((A \<union> B) - P)"
proof -
  have "(A \<union> B) - P = (A - P) \<union> (B - (P \<union> A))" by auto
  moreover have "(A - P) \<inter> (B - (P \<union> A)) = {}" by auto
  moreover from assms have "finite (A - P)" "finite (B - (P \<union> A))" by simp_all
  ultimately show ?thesis by (simp add: card_Un_disjoint)
qed

lemma dated_error_Cons:
  "dated_error (r # rs) = (case dated_error [r] of Some err \<Rightarrow> Some err | None \<Rightarrow> dated_error rs)"
  by (simp split: sum.splits option.splits)

lemma dated_rows_Cons_Inr:
  assumes "dated_rows e p n (r # rs) (w, c) = (w', Inr c')"
  obtains w1 c1 where "dated_row e p n (w, c) r = (w1, Inr c1)"
    and "dated_rows e p n rs (w1, c1) = (w', Inr c')"
  using assms by (auto split: prod.splits sum.splits)

lemma dated_rows_completes:
  assumes "dated_rows e p n rs (w, c) = (w', Inr c')"
  shows "posted w' = posted w @ concat (map (row_posts p n) rs)"
    and "conn w' = conn w"
    and "prefix (printed w) (printed w')"
    and "errors c' + count_list (printed w) InsertError
         = errors c + count_list (printed w') InsertError"
    and "jobs_migrated c' = jobs_migrated c + card (counted_jobs rs - processed_jobs c)"
    and "processed_jobs c' = processed_jobs c \<union> counted_jobs rs"
    and "dates_migrated c' + errors c'
         = dates_migrated c + errors c + length (concat (map (row_posts p n) rs))"
    and "dated_error rs = None"
  using assms
proof (induction rs arbitrary: w c)
  case Nil
  {
    case 1 then show ?case by simp
  next
    case 2 then show ?case by simp
  next
    case 3 then show ?case by simp
  next
    case 4 then show ?case by simp
  next
    case 5 then show ?case by (simp add: counted_jobs_def)
  next
    case 6 then show ?case by (simp add: counted_jobs_def)
  next
    case 7 then show ?case by simp
  next
    case 8 then show ?case by simp
  }
next
  case (Cons r rs)
  {
    case 1
    from dated_rows_Cons_Inr [OF 1] obtain w1 c1
      where s: "dated_row e p n (w, c) r = (w1, Inr c1)"
        and t: "dated_rows e p n rs (w1, c1) = (w', Inr c')" by blast
    from posted_dated_row [of e p n w c r] s have "posted w1 = posted w @ row_posts p n r"
      by simp
    with Cons.IH(1) [OF t] show ?case by simp
  next
    case 2
    from dated_rows_Cons_Inr [OF 2] obtain w1 c1
      where s: "dated_row e p n (w, c) r = (w1, Inr c1)"
        and t: "dated_rows e p n rs (w1, c1) = (w', Inr c')" by blast
    from conn_dated_row [of e p n w c r] s have "conn w1 = conn w" by simp
    with Cons.IH(2) [OF t] show ?case by simp
  next
    case 3
    from dated_rows_Cons_Inr [OF 3] obtain w1 c1
      where s: "dated_row e p n (w, c) r = (w1, Inr c1)"
        and t: "dated_rows e p n rs (w1, c1) = (w', Inr c')" by blast
    from printed_dated_row [of w e p n c r] s have a: "prefix (printed w) (printed w1)" by simp
    from a Cons.IH(3) [OF t] show ?case by (rule prefix_order.trans)
  next
    case 4
    from dated_rows_Cons_Inr [OF 4] obtain w1 c1
      where s: "dated_row e p n (w, c) r = (w1, Inr c1)"
        and t: "dated_rows e p n rs (w1, c1) = (w', Inr c')" by blast
    from dated_row_Inr(1) [OF s] Cons.IH(4) [OF t] show ?case by simp
  next
    case 5
    from dated_rows_Cons_Inr [OF 5] obtain w1 c1
      where s: "dated_row e p n (w, c) r = (w1, Inr c1)"
        and t: "dated_rows e p n rs (w1, c1) = (w', Inr c')" by blast
    from dated_row_Inr(2,3) [OF s] Cons.IH(5) [OF t]
      card_counted_step [of "set (row_job r)" "counted_jobs rs" "processed_jobs c"]
    show ?case by (simp add: counted_jobs_Cons)
  next
    case 6
    from dated_rows_Cons_Inr [OF 6] obtain w1 c1
      where s: "dated_row e p n (w, c) r = (w1, Inr c1)"
        and t: "dated_rows e p n rs (w1, c1) = (w', Inr c')" by blast
    from dated_row_Inr(3) [OF s] Cons.IH(6) [OF t]
    show ?case by (simp add: counted_jobs_Cons Un_assoc)
  next
    case 7
    from dated_rows_Cons_Inr [OF 7] obtain w1 c1
      where s: "dated_row e p n (w, c) r = (w1, Inr c1)"
        and t: "dated_rows e p n rs (w1, c1) = (w', Inr c')" by blast
    from dated_row_Inr(4) [OF s] Cons.IH(7) [OF t] show ?case by simp
  next
    case 8
    from dated_rows_Cons_Inr [OF 8] obtain w1 c1
      where s: "dated_row e p n (w, c) r = (w1, Inr c1)"
        and t: "dated_rows e p n rs (w1, c1) = (w', Inr c')" by blast
    from dated_row_Inr(5) [OF s] Cons.IH(8) [OF t] show ?case
      by (simp only: dated_error_Cons [of r rs] option.case)
  }
qed

subsection \<open>One listing without date entries\<close>

lemma posted_dateless_row:
  "posted (fst (dateless_row e p n (w, c) r)) = posted w @ dateless_posts e p n [r]"
  by (simp add: dateless_row_def dateless_posts_def insert_job_via_api_eq Let_def
      split: sum.splits)

lemma conn_dateless_row: "conn (fst (dateless_row e p n (w, c) r)) = conn w"
  by (simp add: dateless_row_def insert_job_via_api_eq Let_def split: sum.splits)

lemma printed_dateless_row:
  "prefix (printed w) (printed (fst (dateless_row e p n (w, c) r)))"
  by (simp add: dateless_row_def insert_job_via_api_eq Let_def split: sum.splits)

lemma dateless_row_Inr:
  assumes "dateless_row e p n (w, c) r = (w1, Inr c1)"
  shows "errors c1 + count_list (printed w) InsertError
         = errors c + count_list (printed w1) InsertError"
    and "jobs_migrated c1 = jobs_migrated c + 1"
    and "dates_migrated c1 + errors c1 = dates_migrated c + errors c + 1"
  using assms
  by (auto simp: dateless_row_def insert_job_via_api_eq Let_def
      count_submit_lines split: sum.splits if_splits)

lemma dateless_posts_Cons:
  "dateless_posts e p n (r # rs) = dateless_posts e p n [r] @ dateless_posts e p n rs"
  by (simp add: dateless_posts_def)

lemma dateless_rows_Cons_Inr:
  assumes "dateless_rows e p n (r # rs) (w, c) = (w', Inr c')"
  obtains w1 c1 where "dateless_row e p n (w, c) r = (w1, Inr c1)"
    and "dateless_rows e p n rs (w1, c1) = (w', Inr c')"
  using assms by (auto split: prod.splits sum.splits)

lemma dateless_rows_completes:
  assumes "dateless_rows e p n rs (w, c) = (w', Inr c')"
  shows "posted w' = posted w @ dateless_posts e p n rs"
    and "conn w' = conn w"
    and "prefix (printed w) (printed w')"
    and "errors c' + count_list (printed w) InsertError
         = errors c + count_list (printed w') InsertError"
    and "jobs_migrated c' = jobs_migrated c + length rs"
    and "dates_migrated c' + errors c' = dates_migrated c + errors c + length rs"
  using assms
proof (induction rs arbitrary: w c)
  case Nil
  {
    case 1 then show ?case by (simp add: dateless_posts_def)
  next
    case 2 then show ?case by simp
  next
    case 3 then show ?case by simp
  next
    case 4 then show ?case by simp
  next
    case 5 then show ?case by simp
  next
    case 6 then show ?case by simp
  }
next
  case (Cons r rs)
  {
    case 1
    from dateless_rows_Cons_Inr [OF 1] obtain w1 c1
      where s: "dateless_row e p n (w, c) r = (w1, Inr c1)"
        and t: "dateless_rows e p n rs (w1, c1) = (w', Inr c')" by blast
    from posted_dateless_row [of e p n w c r] s
    have "posted w1 = posted w @ dateless_posts e p n [r]" by simp
    with Cons.IH(1) [OF t] show ?case by (simp add: dateless_posts_Cons [of e p n r rs])
  next
    case 2
    from dateless_rows_Cons_Inr [OF 2] obtain w1 c1
      where s: "dateless_row e p n (w, c) r = (w1, Inr c1)"
        and t: "dateless_rows e p n rs (w1, c1) = (w', Inr c')" by blast
    from conn_dateless_row [of e p n w c r] s have "conn w1 = conn w" by simp
    with Cons.IH(2) [OF t] show ?case by simp
  next
    case 3
    from dateless_rows_Cons_Inr [OF 3] obtain w1 c1
      where s: "dateless_row e p n (w, c) r = (w1, Inr c1)"
        and t: "dateless_rows e p n rs (w1, c1) = (w', Inr c')" by blast
    from printed_dateless_row [of w e p n c r] s have a: "prefix (printed w) (printed w1)"
      by simp
    from a Cons.IH(3) [OF t] show ?case by (rule prefix_order.trans)
  next
    case 4
    from dateless_rows_Cons_Inr [OF 4] obtain w1 c1
      where s: "dateless_row e p n (w, c) r = (w1, Inr c1)"
        and t: "dateless_rows e p n rs (w1, c1) = (w', Inr c')" by blast
    from dateless_row_Inr(1) [OF s] Cons.IH(4) [OF t] show ?case by simp
  next
    case 5
    from dateless_rows_Cons_Inr [OF 5] obtain w1 c1
      where s: "dateless_row e p n (w, c) r = (w1, Inr c1)"
        and t: "dateless_rows e p n rs (w1, c1) = (w', Inr c')" by blast
    from dateless_row_Inr(2) [OF s] Cons.IH(5) [OF t] show ?case by simp
  next
    case 6
    from dateless_rows_Cons_Inr [OF 6] obtain w1 c1
      where s: "dateless_row e p n (w, c) r = (w1, Inr c1)"
        and t: "dateless_rows e p n rs (w1, c1) = (w', Inr c')" by blast
    from dateless_row_Inr(3) [OF s] Cons.IH(6) [OF t] show ?case by simp
  }
qed

subsection \<open>When the loops run to their end\<close>

lemma dated_rows_runs:
  assumes "dated_error rs = None"
    and "\<forall>i err. submit_result e (responses e i) \<noteq> Inl err"
  shows "\<exists>w' c'. dated_rows e p n rs (w, c) = (w', Inr c')"
  using assms(1)
proof (induction rs arbitrary: w c)
  case Nil
  show ?case by simp
next
  case (Cons r rs)
  show ?case
  proof (cases "scrape_date_of r")
    case (Inl err)
    with Cons.prems show ?thesis by simp
  next
    case (Inr od)
    show ?thesis
    proof (cases od)
      case None
      with Inr have sd: "scrape_date_of r = Inr None" by simp
      with Cons.prems have "dated_error rs = None" by simp
      from Cons.IH [OF this] dated_row_skips [OF sd, of e p n w c] show ?thesis by simp
    next
      case (Some d)
      with Inr have sd: "scrape_date_of r = Inr (Some d)" by simp
      from Cons.prems sd obtain j where j: "r ''id'' = Some j" and rest: "dated_error rs = None"
        by (cases "r ''id''") simp_all
      from assms(2) obtain ok where "submit_result e (responses e (length (posted w))) = Inr ok"
        by (cases "submit_result e (responses e (length (posted w)))") auto
      from dated_row_submits [OF sd j this, of p n c] obtain w1 c1
        where "dated_row e p n (w, c) r = (w1, Inr c1)" by blast
      with Cons.IH [OF rest, of w1 c1] show ?thesis by simp
    qed
  qed
qed

lemma dateless_rows_runs:
  assumes "\<forall>i err. submit_result e (responses e i) \<noteq> Inl err"
  shows "\<exists>w' c'. dateless_rows e p n rs (w, c) = (w', Inr c')"
proof (induction rs arbitrary: w c)
  case Nil
  show ?case by simp
next
  case (Cons r rs)
  from assms obtain ok where "submit_result e (responses e (length (posted w))) = Inr ok"
    by (cases "submit_result e (responses e (length (posted w)))") auto
  from dateless_row_submits [OF this, of p n c r] obtain w1 c1
    where "dateless_row e p n (w, c) r = (w1, Inr c1)" by blast
  with Cons.IH [of w1 c1] show ?case by simp
qed

subsection \<open>The requests and the lines of a run\<close>

lemma dated_rows_bounds:
  "prefix (posted w) (posted (fst (dated_rows e p n rs (w, c))))
   \<and> prefix (posted (fst (dated_rows e p n rs (w, c))))
        (posted w @ concat (map (row_posts p n) rs))
   \<and> conn (fst (dated_rows e p n rs (w, c))) = conn w
   \<and> prefix (printed w) (printed (fst (dated_rows e p n rs (w, c))))"
proof (induction rs arbitrary: w c)
  case Nil
  show ?case by simp
next
  case (Cons r rs)
  obtain w1 res where s: "dated_row e p n (w, c) r = (w1, res)"
    by (cases "dated_row e p n (w, c) r")
  from posted_dated_row [of e p n w c r] s
  have p1: "posted w1 = posted w @ row_posts p n r" by simp
  from conn_dated_row [of e p n w c r] s have c1: "conn w1 = conn w" by simp
  from printed_dated_row [of w e p n c r] s have l1: "prefix (printed w) (printed w1)" by simp
  show ?case
  proof (cases res)
    case (Inl err)
    with s p1 c1 l1 show ?thesis by simp
  next
    case (Inr c1')
    with s have t: "dated_rows e p n (r # rs) (w, c) = dated_rows e p n rs (w1, c1')" by simp
    from Cons.IH [of w1 c1']
    have ih: "prefix (posted w1) (posted (fst (dated_rows e p n rs (w1, c1'))))"
      "prefix (posted (fst (dated_rows e p n rs (w1, c1'))))
         (posted w1 @ concat (map (row_posts p n) rs))"
      "conn (fst (dated_rows e p n rs (w1, c1'))) = conn w1"
      "prefix (printed w1) (printed (fst (dated_rows e p n rs (w1, c1'))))"
      by simp_all
    from p1 have "prefix (posted w) (posted w1)" by simp
    from this ih(1) have a: "prefix (posted w) (posted (fst (dated_rows e p n rs (w1, c1'))))"
      by (rule prefix_order.trans)
    from ih(2) p1 have b: "prefix (posted (fst (dated_rows e p n rs (w1, c1'))))
        (posted w @ concat (map (row_posts p n) (r # rs)))" by simp
    from l1 ih(4) have d: "prefix (printed w) (printed (fst (dated_rows e p n rs (w1, c1'))))"
      by (rule prefix_order.trans)
    from a b d ih(3) c1 show ?thesis by (simp only: t)
  qed
qed

lemma dateless_rows_bounds:
  "prefix (posted w) (posted (fst (dateless_rows e p n rs (w, c))))
   \<and> prefix (posted (fst (dateless_rows e p n rs (w, c))))
        (posted w @ dateless_posts e p n rs)
   \<and> conn (fst (dateless_rows e p n rs (w, c))) = conn w
   \<and> prefix (printed w) (printed (fst (dateless_rows e p n rs (w, c))))"
proof (induction rs arbitrary: w c)
  case Nil
  show ?case by simp
next
  case (Cons r rs)
  obtain w1 res where s: "dateless_row e p n (w, c) r = (w1, res)"
    by (cases "dateless_row e p n (w, c) r")
  from posted_dateless_row [of e p n w c r] s
  have p1: "posted w1 = posted w @ dateless_posts e p n [r]" by simp
  from conn_dateless_row [of e p n w c r] s have c1: "conn w1 = conn w" by simp
  from printed_dateless_row [of w e p n c r] s have l1: "prefix (printed w) (printed w1)"
    by simp
  show ?case
  proof (cases res)
    case (Inl err)
    with s p1 c1 l1 show ?thesis by (simp add: dateless_posts_Cons [of e p n r rs])
  next
    case (Inr c1')
    with s have t: "dateless_rows e p n (r # rs) (w, c) = dateless_rows e p n rs (w1, c1')"
      by simp
    from Cons.IH [of w1 c1']
    have ih: "prefix (posted w1) (posted (fst (dateless_rows e p n rs (w1, c1'))))"
      "prefix (posted (fst (dateless_rows e p n rs (w1, c1'))))
         (posted w1 @ dateless_posts e p n rs)"
      "conn (fst (dateless_rows e p n rs (w1, c1'))) = conn w1"
      "prefix (printed w1) (printed (fst (dateless_rows e p n rs (w1, c1'))))"
      by simp_all
    from p1 have "prefix (posted w) (posted w1)" by simp
    from this ih(1) have a: "prefix (posted w) (posted (fst (dateless_rows e p n rs (w1, c1'))))"
      by (rule prefix_order.trans)
    from ih(2) p1 have b: "prefix (posted (fst (dateless_rows e p n rs (w1, c1'))))
        (posted w @ dateless_posts e p n (r # rs))"
      by (simp add: dateless_posts_Cons [of e p n r rs])
    from l1 ih(4) have d: "prefix (printed w) (printed (fst (dateless_rows e p n rs (w1, c1'))))"
      by (rule prefix_order.trans)
    from a b d ih(3) c1 show ?thesis by (simp only: t)
  qed
qed

lemma migrate_company_unknown:
  "map_of COMPANY_MAPPING p = None \<Longrightarrow> migrate_company e p (w, st) = (w, Inl KeyError)"
  by (simp add: migrate_company_def)

lemma migrate_company_query_fails:
  "map_of COMPANY_MAPPING p = Some n \<Longrightarrow> fetch e p = None \<Longrightarrow>
     migrate_company e p (w, st) = (say [Banner n] w, Inl DatabaseError)"
  by (simp add: migrate_company_def)

lemma migrate_company_dated_raises:
  "map_of COMPANY_MAPPING p = Some n \<Longrightarrow> fetch e p = Some (rows, ds) \<Longrightarrow>
   dated_rows e p n rows (say [Banner n] w, counters0) = (w2, Inl err) \<Longrightarrow>
     migrate_company e p (w, st) = (w2, Inl err)"
  by (simp add: migrate_company_def)

lemma migrate_company_dateless_raises:
  "map_of COMPANY_MAPPING p = Some n \<Longrightarrow> fetch e p = Some (rows, ds) \<Longrightarrow>
   dated_rows e p n rows (say [Banner n] w, counters0) = (w2, Inr c) \<Longrightarrow>
   dateless_rows e p n ds (w2, c) = (w3, Inl err) \<Longrightarrow>
     migrate_company e p (w, st) = (w3, Inl err)"
  by (simp add: migrate_company_def)

lemma migrate_company_ends:
  "map_of COMPANY_MAPPING p = Some n \<Longrightarrow> fetch e p = Some (rows, ds) \<Longrightarrow>
   dated_rows e p n rows (say [Banner n] w, counters0) = (w2, Inr c) \<Longrightarrow>
   dateless_rows e p n ds (w2, c) = (w3, Inr c') \<Longrightarrow>
     migrate_company e p (w, st)
       = (say [Completed (jobs_migrated c') (dates_migrated c') (errors c')] w3,
          Inr (record_company n c' st))"
  by (simp add: migrate_company_def)

lemma migrate_company_Inr:
  assumes "migrate_company e p (w, st) = (w', Inr st')"
  obtains n rows ds w2 c w3 c' where "map_of COMPANY_MAPPING p = Some n"
    and "fetch e p = Some (rows, ds)"
    and "dated_rows e p n rows (say [Banner n] w, counters0) = (w2, Inr c)"
    and "dateless_rows e p n ds (w2, c) = (w3, Inr c')"
    and "w' = say [Completed (jobs_migrated c') (dates_migrated c') (errors c')] w3"
    and "st' = record_company n c' st"
  using assms
  by (auto simp: migrate_company_def Let_def split: option.splits prod.splits sum.splits)

lemma migrate_company_completes:
  assumes "migrate_company e p (w, st) = (w', Inr st')"
  obtains n rows ds c' where "map_of COMPANY_MAPPING p = Some n"
    and "fetch e p = Some (rows, ds)"
    and "posted w' = posted w @ concat (map (row_posts p n) rows) @ dateless_posts e p n ds"
    and "conn w' = conn w"
    and "st' = record_company n c' st"
    and "jobs_migrated c' = card (counted_jobs rows) + length ds"
    and "dates_migrated c' + errors c'
           = length (concat (map (row_posts p n) rows)) + length ds"
    and "errors c' + count_list (printed w) InsertError = count_list (printed w') InsertError"
    and "dated_error rows = None"
    and "prefix (printed w @ [Banner n]) (printed w')"
proof -
  from migrate_company_Inr [OF assms] obtain n rows ds w2 c w3 c'
    where n: "map_of COMPANY_MAPPING p = Some n"
      and f: "fetch e p = Some (rows, ds)"
      and d: "dated_rows e p n rows (say [Banner n] w, counters0) = (w2, Inr c)"
      and l: "dateless_rows e p n ds (w2, c) = (w3, Inr c')"
      and w': "w' = say [Completed (jobs_migrated c') (dates_migrated c') (errors c')] w3"
      and st': "st' = record_company n c' st"
    by blast
  note D = dated_rows_completes [OF d]
  note L = dateless_rows_completes [OF l]
  from D(1) L(1) w'
  have 1: "posted w' = posted w @ concat (map (row_posts p n) rows) @ dateless_posts e p n ds"
    by simp
  from D(2) L(2) w' have 2: "conn w' = conn w" by simp
  from D(5) L(5) have 3: "jobs_migrated c' = card (counted_jobs rows) + length ds"
    by (simp add: counters0_def)
  from D(7) L(6) have 4: "dates_migrated c' + errors c'
      = length (concat (map (row_posts p n) rows)) + length ds"
    by (simp add: counters0_def)
  from D(4) L(4) w'
  have 5: "errors c' + count_list (printed w) InsertError = count_list (printed w') InsertError"
    by (simp add: counters0_def)
  from D(3) have "prefix (printed w @ [Banner n]) (printed w2)" by simp
  from this L(3) have "prefix (printed w @ [Banner n]) (printed w3)"
    by (rule prefix_order.trans)
  moreover from w' have "prefix (printed w3) (printed w')" by simp
  ultimately have 6: "prefix (printed w @ [Banner n]) (printed w')"
    by (rule prefix_order.trans)
  from n f 1 2 st' 3 4 5 D(8) 6 show ?thesis by (rule that)
qed

lemma migrate_company_runs:
  assumes "map_of COMPANY_MAPPING p = Some n" and "fetch e p = Some (rows, ds)"
    and "dated_error rows = None"
    and "\<forall>i err. submit_result e (responses e i) \<noteq> Inl err"
  shows "\<exists>w' st'. migrate_company e p (w, st) = (w', Inr st')"
proof -
  from dated_rows_runs [OF assms(3,4), of p n "say [Banner n] w" counters0] obtain w2 c
    where d: "dated_rows e p n rows (say [Banner n] w, counters0) = (w2, Inr c)" by blast
  from dateless_rows_runs [OF assms(4), of p n ds w2 c] obtain w3 c'
    where l: "dateless_rows e p n ds (w2, c) = (w3, Inr c')" by blast
  from migrate_company_ends [OF assms(1,2) d l, of st] show ?thesis by blast
qed

lemma source_posts_eq:
  "map_of COMPANY_MAPPING p = Some n \<Longrightarrow> fetch e p = Some (rows, ds) \<Longrightarrow>
     source_posts e p = concat (map (row_posts p n) rows) @ dateless_posts e p n ds"
  by (simp add: source_posts_def)

lemma migrate_company_bounds:
  "prefix (posted w) (posted (fst (migrate_company e p (w, st))))
   \<and> prefix (posted (fst (migrate_company e p (w, st)))) (posted w @ source_posts e p)
   \<and> conn (fst (migrate_company e p (w, st))) = conn w
   \<and> prefix (printed w) (printed (fst (migrate_company e p (w, st))))"
proof (cases "map_of COMPANY_MAPPING p")
  case None
  from migrate_company_unknown [OF None, of e w st] show ?thesis by simp
next
  case (Some n)
  show ?thesis
  proof (cases "fetch e p")
    case None
    from migrate_company_query_fails [OF Some None, of w st] show ?thesis by simp
  next
    case (Some fetched)
    obtain rows ds where "fetched = (rows, ds)" by (cases fetched)
    with Some have f: "fetch e p = Some (rows, ds)" by simp
    note n = \<open>map_of COMPANY_MAPPING p = Some n\<close>
    note sp = source_posts_eq [OF n f]
    let ?w1 = "say [Banner n] w"
    obtain w2 res where d: "dated_rows e p n rows (?w1, counters0) = (w2, res)"
      by (cases "dated_rows e p n rows (?w1, counters0)")
    from dated_rows_bounds [of ?w1 e p n rows counters0] d
    have D: "prefix (posted w) (posted w2)"
      "prefix (posted w2) (posted w @ concat (map (row_posts p n) rows))"
      "conn w2 = conn w" "prefix (printed ?w1) (printed w2)"
      by simp_all
    have "prefix (printed w) (printed ?w1)" by simp
    from this D(4) have D4: "prefix (printed w) (printed w2)" by (rule prefix_order.trans)
    have ext: "prefix (posted w @ concat (map (row_posts p n) rows))
        (posted w @ source_posts e p)"
      by (simp add: sp)
    from D(2) ext have D2: "prefix (posted w2) (posted w @ source_posts e p)"
      by (rule prefix_order.trans)
    show ?thesis
    proof (cases res)
      case (Inl err)
      with d have "dated_rows e p n rows (?w1, counters0) = (w2, Inl err)" by simp
      from migrate_company_dated_raises [OF n f this, of st] D(1,3) D2 D4
      show ?thesis by simp
    next
      case (Inr c)
      with d have d': "dated_rows e p n rows (?w1, counters0) = (w2, Inr c)" by simp
      from dated_rows_completes(1) [OF d']
      have p2: "posted w2 = posted w @ concat (map (row_posts p n) rows)" by simp
      obtain w3 res' where l: "dateless_rows e p n ds (w2, c) = (w3, res')"
        by (cases "dateless_rows e p n ds (w2, c)")
      from dateless_rows_bounds [of w2 e p n ds c] l
      have L: "prefix (posted w2) (posted w3)"
        "prefix (posted w3) (posted w2 @ dateless_posts e p n ds)"
        "conn w3 = conn w2" "prefix (printed w2) (printed w3)"
        by simp_all
      from D(1) L(1) have a: "prefix (posted w) (posted w3)" by (rule prefix_order.trans)
      from L(2) p2 have b: "prefix (posted w3) (posted w @ source_posts e p)"
        by (simp add: sp)
      from D4 L(4) have g: "prefix (printed w) (printed w3)" by (rule prefix_order.trans)
      show ?thesis
      proof (cases res')
        case (Inl err)
        with l have "dateless_rows e p n ds (w2, c) = (w3, Inl err)" by simp
        from migrate_company_dateless_raises [OF n f d' this, of st] a b g L(3) D(3)
        show ?thesis by simp
      next
        case (Inr c')
        with l have l': "dateless_rows e p n ds (w2, c) = (w3, Inr c')" by simp
        let ?w4 = "say [Completed (jobs_migrated c') (dates_migrated c') (errors c')] w3"
        have "prefix (printed w3) (printed ?w4)" by simp
        from g this have "prefix (printed w) (printed ?w4)" by (rule prefix_order.trans)
        with migrate_company_ends [OF n f d' l', of st] a b L(3) D(3)
        show ?thesis by simp
      qed
    qed
  qed
qed

lemma migrate_source_bounds:
  "prefix (posted (fst ws)) (posted (fst (migrate_source e ws p)))
   \<and> prefix (posted (fst (migrate_source e ws p))) (posted (fst ws) @ source_posts e p)
   \<and> conn (fst (migrate_source e ws p)) = conn (fst ws)
   \<and> prefix (printed (fst ws)) (printed (fst (migrate_source e ws p)))"
proof -
  obtain w st where ws: "ws = (w, st)" by (cases ws)
  obtain w' res where m: "migrate_company e p (w, st) = (w', res)"
    by (cases "migrate_company e p (w, st)")
  from migrate_company_bounds [of w e p st] m
  have B: "prefix (posted w) (posted w')" "prefix (posted w') (posted w @ source_posts e p)"
    "conn w' = conn w" "prefix (printed w) (printed w')"
    by simp_all
  show ?thesis
  proof (cases res)
    case (Inl err)
    have "prefix (printed w') (printed (say [MigrateError p err, Traceback err] w'))" by simp
    from B(4) this have "prefix (printed w) (printed (say [MigrateError p err, Traceback err] w'))"
      by (rule prefix_order.trans)
    with Inl ws m B show ?thesis by (simp add: migrate_source_def)
  next
    case (Inr st')
    with ws m B show ?thesis by (simp add: migrate_source_def)
  qed
qed


lemma migrate_sources_posted:
  "\<exists>ys. posted (fst (foldl (migrate_source e) ws ps)) = posted (fst ws) @ ys
     \<and> subseq ys (concat (map (source_posts e) ps))"
proof (induction ps arbitrary: ws)
  case Nil
  show ?case by simp
next
  case (Cons p ps)
  let ?ws1 = "migrate_source e ws p"
  from migrate_source_bounds [of ws e p]
  have S: "prefix (posted (fst ws)) (posted (fst ?ws1))"
    "prefix (posted (fst ?ws1)) (posted (fst ws) @ source_posts e p)"
    by simp_all
  from S(1) obtain xs where xs: "posted (fst ?ws1) = posted (fst ws) @ xs"
    by (auto simp: prefix_def)
  with S(2) have "prefix xs (source_posts e p)" by simp
  then have sx: "subseq xs (source_posts e p)" by (rule prefix_imp_subseq)
  from Cons.IH [of ?ws1] obtain ys
    where ys: "posted (fst (foldl (migrate_source e) ?ws1 ps)) = posted (fst ?ws1) @ ys"
      and sy: "subseq ys (concat (map (source_posts e) ps))"
    by blast
  from sx sy have "subseq (xs @ ys) (source_posts e p @ concat (map (source_posts e) ps))"
    by (rule list_emb_append_mono)
  with xs ys show ?case by simp
qed

lemma migrate_all_posted:
  "subseq (posted (final_world (migrate_all e)))
     (concat (map (source_posts e) (map fst COMPANY_MAPPING)))"
proof (cases "connects e")
  case True
  from migrate_sources_posted
    [of e "(say [Connected] (world0\<lparr>conn := Open\<rparr>), stats0)" "map fst COMPANY_MAPPING"]
  show ?thesis using True by (auto simp: migrate_all_def Let_def world0_def)
next
  case False
  then show ?thesis by (simp add: migrate_all_def world0_def)
qed

lemma migrate_all_sources:
  "connects e \<Longrightarrow> migrate_all e =
     \<lparr>exit_status = 0,
      final_world = say [Summary (snd (migrate_source e (migrate_source e
          (say [Connected] (world0\<lparr>conn := Open\<rparr>), stats0) ''kls'') ''ks''))]
        ((fst (migrate_source e (migrate_source e
          (say [Connected] (world0\<lparr>conn := Open\<rparr>), stats0) ''kls'') ''ks''))\<lparr>conn := Closed\<rparr>),
      final_stats = snd (migrate_source e (migrate_source e
          (say [Connected] (world0\<lparr>conn := Open\<rparr>), stats0) ''kls'') ''ks'')\<rparr>"
  by (simp add: migrate_all_def COMPANY_MAPPING_def Let_def)

lemma migrate_all_posted_sources:
  "connects e \<Longrightarrow> posted (final_world (migrate_all e)) =
     posted (fst (migrate_source e (migrate_source e
          (say [Connected] (world0\<lparr>conn := Open\<rparr>), stats0) ''kls'') ''ks''))"
  by (simp add: migrate_all_sources)

lemma migrate_source_posted_complete:
  assumes "map_of COMPANY_MAPPING p = Some n" and "fetch e p = Some (rows, ds)"
    and "dated_error rows = None"
    and "\<forall>i err. submit_result e (responses e i) \<noteq> Inl err"
  shows "posted (fst (migrate_source e ws p))
     = posted (fst ws) @ concat (map (row_posts p n) rows) @ dateless_posts e p n ds"
proof -
  obtain w st where ws: "ws = (w, st)" by (cases ws)
  from migrate_company_runs [OF assms, of w st] obtain w' st'
    where m: "migrate_company e p (w, st) = (w', Inr st')" by blast
  from migrate_company_completes [OF m] assms(1,2)
  have "posted w' = posted w @ concat (map (row_posts p n) rows) @ dateless_posts e p n ds"
    by auto
  with ws m show ?thesis by (simp add: migrate_source_def)
qed

lemma migrate_source_posted_query_fails:
  assumes "fetch e p = None"
  shows "posted (fst (migrate_source e ws p)) = posted (fst ws)"
proof -
  from assms have "source_posts e p = []"
    by (simp add: source_posts_def split: option.splits)
  with migrate_source_bounds [of ws e p] show ?thesis
    by (auto simp: prefix_def)
qed

subsection \<open>No request is marked hidden\<close>

lemma row_posts_shape:
  "x \<in> set (row_posts p n r) \<Longrightarrow> \<exists>d. x = build_payload n (map_job_fields p r) d"
  by (auto simp: row_posts_def split: sum.splits option.splits)

lemma source_posts_shape:
  assumes "x \<in> set (source_posts e p)"
  shows "\<exists>n r d. map_of COMPANY_MAPPING p = Some n \<and> x = build_payload n (map_job_fields p r) d"
proof (cases "map_of COMPANY_MAPPING p")
  case None
  with assms show ?thesis by (simp add: source_posts_def)
next
  case (Some n)
  show ?thesis
  proof (cases "fetch e p")
    case None
    with Some assms show ?thesis by (simp add: source_posts_def)
  next
    case (Some fetched)
    obtain rs ds where "fetched = (rs, ds)" by (cases fetched)
    with Some \<open>map_of COMPANY_MAPPING p = Some n\<close> assms
    have "(\<exists>r \<in> set rs. x \<in> set (row_posts p n r)) \<or> x \<in> set (dateless_posts e p n ds)"
      by (auto simp: source_posts_def)
    then have "\<exists>r d. x = build_payload n (map_job_fields p r) d"
      by (auto simp: dateless_posts_def dest!: row_posts_shape)
    with \<open>map_of COMPANY_MAPPING p = Some n\<close> show ?thesis by blast
  qed
qed

lemma company_not_hidden: "map_of COMPANY_MAPPING p = Some n \<Longrightarrow> n \<notin> HIDDEN_COMPANIES"
  by (auto simp: COMPANY_MAPPING_def HIDDEN_COMPANIES_def split: if_splits)

text \<open>
  C9. The sources of \<^verbatim>\<open>COMPANY_MAPPING\<close> belong to the organisations
  \<^verbatim>\<open>KLS\<close> and \<^verbatim>\<open>KarlStorz\<close>; neither is in \<^verbatim>\<open>HIDDEN_COMPANIES\<close>,
  which holds the spelling \<^verbatim>\<open>KarlsStorz\<close>. Every request of a run carries
  \<^verbatim>\<open>hidden\<close> with the value false.
\<close>

theorem no_submitted_record_is_hidden:
  "snd ` set COMPANY_MAPPING = {''KLS'', ''KarlStorz''}
   \<and> ''KLS'' \<notin> HIDDEN_COMPANIES \<and> ''KarlStorz'' \<notin> HIDDEN_COMPANIES
   \<and> ''KarlsStorz'' \<in> HIDDEN_COMPANIES
   \<and> (\<forall>payload \<in> set (posted (final_world (migrate_all e))).
         map_of payload ''hidden'' = Some (JBool False))"
proof (intro conjI ballI)
  fix payload assume "payload \<in> set (posted (final_world (migrate_all e)))"
  with migrate_all_posted [of e]
  have "payload \<in> set (concat (map (source_posts e) (map fst COMPANY_MAPPING)))"
    by (auto dest: list_emb_set)
  then obtain p where "payload \<in> set (source_posts e p)" by auto
  from source_posts_shape [OF this] obtain n r d
    where n: "map_of COMPANY_MAPPING p = Some n"
      and x: "payload = build_payload n (map_job_fields p r) d" by blast
  from company_not_hidden [OF n] x show "map_of payload ''hidden'' = Some (JBool False)"
    by (simp add: payload_fixed)
qed (auto simp: COMPANY_MAPPING_def HIDDEN_COMPANIES_def)

lemma sample_env_never_raises:
  "\<forall>i err. submit_result (sample_env\<lparr>fetch := f\<rparr>) (responses (sample_env\<lparr>fetch := f\<rparr>) i) \<noteq> Inl err"
  by (simp add: submit_result_def sample_env_def raise_for_status_def body_seen_def
      response_json_def)

lemma kls_is_KLS: "map_of COMPANY_MAPPING ''kls'' = Some ''KLS''"
  by (simp add: COMPANY_MAPPING_def)

lemma dated_error_engineer: "dated_error [row_engineer] = None"
  by (simp add: scrape_date_engineer id_engineer)

lemma posted_env_one_row:
  "posted (final_world (migrate_all env_one_row))
     = [build_payload ''KLS'' (map_job_fields ''kls'' row_engineer) date_2023_01_15]"
proof -
  have c: "connects env_one_row" by (simp add: env_one_row_def sample_env_def)
  have f: "fetch env_one_row ''kls'' = Some ([row_engineer], [])"
    by (simp add: env_one_row_def)
  have g: "fetch env_one_row ''ks'' = None" by (simp add: env_one_row_def sample_env_def)
  have r: "\<forall>i err. submit_result env_one_row (responses env_one_row i) \<noteq> Inl err"
    unfolding env_one_row_def by (rule sample_env_never_raises)
  show ?thesis
    by (simp add: migrate_all_posted_sources [OF c] migrate_source_posted_query_fails [OF g]
        migrate_source_posted_complete [OF kls_is_KLS f dated_error_engineer r]
        world0_def row_posts_def scrape_date_engineer dateless_posts_def)
qed

theorem no_submitted_record_is_hidden_witness:
  "posted (final_world (migrate_all env_one_row))
     = [build_payload ''KLS'' (map_job_fields ''kls'' row_engineer) date_2023_01_15]
   \<and> map_of (build_payload ''KLS'' (map_job_fields ''kls'' row_engineer) date_2023_01_15)
        ''hidden'' = Some (JBool False)"
proof -
  from no_submitted_record_is_hidden [of env_one_row]
  have "\<forall>payload \<in> set (posted (final_world (migrate_all env_one_row))).
     map_of payload ''hidden'' = Some (JBool False)" by blast
  then show ?thesis by (simp add: posted_env_one_row)
qed

subsection \<open>Listings with date entries\<close>

lemma map_field_cong:
  "r (fst fm) = r' (fst fm) \<Longrightarrow> map_field r fm nd = map_field r' fm nd"
  by (simp add: map_field_def)

lemma map_fields_cong:
  "\<forall>fm \<in> set fms. r (fst fm) = r' (fst fm) \<Longrightarrow>
     foldl (\<lambda>nd fm. map_field r fm nd) acc fms = foldl (\<lambda>nd fm. map_field r' fm nd) acc fms"
proof (induction fms arbitrary: acc)
  case Nil
  show ?case by simp
next
  case (Cons fm fms)
  from Cons.prems have "map_field r fm acc = map_field r' fm acc"
    by (intro map_field_cong) simp
  with Cons show ?case by simp
qed

lemma map_job_fields_join_row:
  "map_job_fields p (join_row listing ev) = map_job_fields p listing"
  unfolding map_job_fields_def
proof (rule map_fields_cong, rule ballI)
  fix fm assume "fm \<in> set (field_mapping p)"
  then have "(fst fm, snd fm) \<in> set (field_mapping p)" by simp
  from field_mapping_names [OF this]
  show "join_row listing ev (fst fm) = listing (fst fm)"
    by (simp add: join_row_def)
qed

lemma join_row_id: "join_row listing ev ''id'' = listing ''id''"
  by (simp add: join_row_def)

lemma parsed_all_some: "\<forall>od \<in> set ods. od \<noteq> None \<Longrightarrow> length (parsed ods) = length ods"
  by (induction ods rule: parsed.induct) simp_all

lemma parsed_Nil_iff: "parsed ods = [] \<longleftrightarrow> (\<forall>od \<in> set ods. od = None)"
  by (induction ods rule: parsed.induct) simp_all

lemma row_posts_join_row:
  "row_posts p n (join_row listing ev) =
     (case event_date listing ev of
        Some d \<Rightarrow> [build_payload n (map_job_fields p listing) d] | None \<Rightarrow> [])"
  by (simp add: row_posts_def event_date_def map_job_fields_join_row
      split: sum.splits option.splits)

lemma listing_posts:
  "concat (map (row_posts p n) (map (join_row listing) events))
     = map (build_payload n (map_job_fields p listing)) (parsed (map (event_date listing) events))"
proof (induction events)
  case Nil
  show ?case by simp
next
  case (Cons ev events)
  then show ?case by (cases "event_date listing ev") (simp_all add: row_posts_join_row)
qed

lemma row_job_join_row:
  "listing ''id'' = Some L \<Longrightarrow>
     row_job (join_row listing ev) = (case event_date listing ev of Some d \<Rightarrow> [L] | None \<Rightarrow> [])"
  by (simp add: row_job_def event_date_def join_row_id split: sum.splits option.splits)

lemma row_job_id: "L \<in> set (row_job r) \<Longrightarrow> r ''id'' = Some L"
  by (auto simp: row_job_def split: sum.splits option.splits)

lemma listing_counted:
  assumes "listing ''id'' = Some L"
    and "listing_rows L rows = map (join_row listing) events"
  shows "L \<in> counted_jobs rows \<longleftrightarrow> parsed (map (event_date listing) events) \<noteq> []"
proof -
  have "L \<in> counted_jobs rows \<longleftrightarrow> (\<exists>r \<in> set (listing_rows L rows). L \<in> set (row_job r))"
    by (auto simp: counted_jobs_def listing_rows_def dest: row_job_id)
  also have "\<dots> \<longleftrightarrow> (\<exists>ev \<in> set events. L \<in> set (row_job (join_row listing ev)))"
    by (simp add: assms(2))
  also have "\<dots> \<longleftrightarrow> (\<exists>ev \<in> set events. event_date listing ev \<noteq> None)"
  proof -
    have "L \<in> set (row_job (join_row listing ev)) \<longleftrightarrow> event_date listing ev \<noteq> None" for ev
      using assms(1)
      by (cases "event_date listing ev")
        (simp_all add: row_job_join_row [where listing = listing and L = L])
    then show ?thesis by simp
  qed
  also have "\<dots> \<longleftrightarrow> parsed (map (event_date listing) events) \<noteq> []"
    by (auto simp: parsed_Nil_iff)
  finally show ?thesis .
qed

lemma card_counted_listing:
  "card (counted_jobs rows)
     = card (counted_jobs rows - {L}) + (if L \<in> counted_jobs rows then 1 else 0)"
proof (cases "L \<in> counted_jobs rows")
  case True
  then have "card (counted_jobs rows - {L}) = card (counted_jobs rows) - 1" by simp
  moreover from True have "0 < card (counted_jobs rows)" by (auto simp: card_gt_0_iff)
  ultimately show ?thesis using True by simp
next
  case False
  then show ?thesis by simp
qed

lemma by_company_record:
  "map_of (by_company (record_company n c st)) n
     = Some \<lparr>jobs = jobs_migrated c, dates = dates_migrated c, failed = errors c\<rparr>"
  by (simp add: record_company_def update_conv')

lemma totals_record:
  "total_jobs (record_company n c st) = total_jobs st + jobs_migrated c"
  "total_dates (record_company n c st) = total_dates st + dates_migrated c"
  "total_errors (record_company n c st) = total_errors st + errors c"
  by (simp_all add: record_company_def)

text \<open>
  C3, as amended. Take a source of \<^verbatim>\<open>COMPANY_MAPPING\<close>, the rows its two
  queries return, and a listing whose rows in the join are those of its date entries.
  The rows of the listing stand for one request for each entry whose scrape date
  parses, in order, every one with the mapped fields of the listing and the date of
  its entry, and for none for the other entries. When the migration of the source
  runs to its end, the requests sent are those of all the rows of the join, in
  order, followed by those of the listings without date entries; and the number of
  unique jobs recorded for the source, which is added to the total, counts this
  listing once when at least one of its entries parses and not at all when none
  does. So a listing with N entries that all parse gives exactly N requests and
  counts once. The migration of the source runs to its end when no row of the join
  raises by itself and no submission raises.
\<close>

theorem listing_records_per_parsed_date_event:
  assumes "map_of COMPANY_MAPPING p = Some n"
    and "fetch e p = Some (rows, ds)"
    and "listing ''id'' = Some L"
    and "listing_rows L rows = map (join_row listing) events"
  shows "concat (map (row_posts p n) (listing_rows L rows))
       = map (build_payload n (map_job_fields p listing))
           (parsed (map (event_date listing) events))
    \<and> (migrate_company e p (w, st) = (w', Inr st') \<longrightarrow>
         posted w' = posted w @ concat (map (row_posts p n) rows) @ dateless_posts e p n ds
         \<and> (\<exists>cs. map_of (by_company st') n = Some cs
              \<and> jobs cs = card (counted_jobs rows - {L})
                    + (if parsed (map (event_date listing) events) = [] then 0 else 1)
                    + length ds
              \<and> total_jobs st' = total_jobs st + jobs cs))
    \<and> (events \<noteq> [] \<and> (\<forall>ev \<in> set events. event_date listing ev \<noteq> None) \<longrightarrow>
         length (concat (map (row_posts p n) (listing_rows L rows))) = length events
         \<and> parsed (map (event_date listing) events) \<noteq> [])
    \<and> (dated_error rows = None \<and> (\<forall>i err. submit_result e (responses e i) \<noteq> Inl err) \<longrightarrow>
         (\<exists>w' st'. migrate_company e p (w, st) = (w', Inr st')))"
proof (intro conjI impI)
  show lp: "concat (map (row_posts p n) (listing_rows L rows))
       = map (build_payload n (map_job_fields p listing))
           (parsed (map (event_date listing) events))"
    by (simp only: assms(4) listing_posts)
  {
    assume "events \<noteq> [] \<and> (\<forall>ev \<in> set events. event_date listing ev \<noteq> None)"
    then have ne: "events \<noteq> []"
      and al: "\<forall>od \<in> set (map (event_date listing) events). od \<noteq> None" by simp_all
    from parsed_all_some [OF al]
    have len: "length (parsed (map (event_date listing) events)) = length events" by simp
    with lp show "length (concat (map (row_posts p n) (listing_rows L rows))) = length events"
      by simp
    from len ne show "parsed (map (event_date listing) events) \<noteq> []" by auto
  }
  {
    assume m: "migrate_company e p (w, st) = (w', Inr st')"
    from migrate_company_completes [OF m] assms(1,2) obtain c'
      where po: "posted w' = posted w @ concat (map (row_posts p n) rows)
                   @ dateless_posts e p n ds"
        and st': "st' = record_company n c' st"
        and j: "jobs_migrated c' = card (counted_jobs rows) + length ds"
      by auto
    from po show "posted w' = posted w @ concat (map (row_posts p n) rows)
        @ dateless_posts e p n ds" .
    let ?cs = "\<lparr>jobs = jobs_migrated c', dates = dates_migrated c', failed = errors c'\<rparr>"
    from st' have a: "map_of (by_company st') n = Some ?cs" by (simp add: by_company_record)
    from j card_counted_listing [of rows L] listing_counted [OF assms(3,4)]
    have b: "jobs ?cs = card (counted_jobs rows - {L})
                    + (if parsed (map (event_date listing) events) = [] then 0 else 1)
                    + length ds"
      by simp
    from st' have c: "total_jobs st' = total_jobs st + jobs ?cs" by (simp add: totals_record)
    from a b c show "\<exists>cs. map_of (by_company st') n = Some cs
              \<and> jobs cs = card (counted_jobs rows - {L})
                    + (if parsed (map (event_date listing) events) = [] then 0 else 1)
                    + length ds
              \<and> total_jobs st' = total_jobs st + jobs cs"
      by (intro exI [of _ ?cs] conjI)
  }
  {
    assume "dated_error rows = None \<and> (\<forall>i err. submit_result e (responses e i) \<noteq> Inl err)"
    then have a: "dated_error rows = None"
      and b: "\<forall>i err. submit_result e (responses e i) \<noteq> Inl err" by simp_all
    from migrate_company_runs [OF assms(1,2) a b, of w st]
    show "\<exists>w' st'. migrate_company e p (w, st) = (w', Inr st')" .
  }
qed

lemma scrape_date_join:
  "scrape_date_of (join_row listing (i, PStr s)) = Inr (if s = [] then None else parse_date s)"
  by (simp add: scrape_date_of_def join_row_def)

lemma parse_2023_01_15: "parse_date ''2023-01-15'' = Some date_2023_01_15"
  by (simp add: parse_eval date_2023_01_15_def)

lemma parse_2023_02_01: "parse_date ''01.02.2023'' = Some date_2023_02_01"
  by (simp add: parse_eval date_2023_02_01_def)

lemma parse_soon: "parse_date ''soon'' = None"
  by (simp add: parse_eval)

lemma id_listing_engineer: "listing_engineer ''id'' = Some (PInt 7)"
  by (simp add: listing_engineer_def)

lemma event_date_str:
  "event_date listing (i, PStr s) = (if s = [] then None else parse_date s)"
  by (simp add: event_date_def scrape_date_join)

theorem listing_records_per_parsed_date_event_witness:
  "\<exists>w' st'. migrate_company env_two_events ''kls'' (world0, stats0) = (w', Inr st')
     \<and> posted w' = [build_payload ''KLS'' (map_job_fields ''kls'' listing_engineer) date_2023_01_15,
                     build_payload ''KLS'' (map_job_fields ''kls'' listing_engineer) date_2023_02_01]
     \<and> (\<exists>cs. map_of (by_company st') ''KLS'' = Some cs \<and> jobs cs = 1 \<and> total_jobs st' = 1)"
proof -
  let ?events = "[(PInt 1, PStr ''2023-01-15''), (PInt 2, PStr ''01.02.2023'')]"
  let ?rows = "map (join_row listing_engineer) ?events"
  have f: "fetch env_two_events ''kls'' = Some (?rows, [])" by (simp add: env_two_events_def)
  have l: "listing_rows (PInt 7) ?rows = map (join_row listing_engineer) ?events"
    by (simp add: listing_rows_def join_row_id id_listing_engineer)
  have de: "dated_error ?rows = None"
    by (simp add: scrape_date_join parse_2023_01_15 parse_2023_02_01 join_row_id
        id_listing_engineer)
  have nr: "\<forall>i err. submit_result env_two_events (responses env_two_events i) \<noteq> Inl err"
    unfolding env_two_events_def by (rule sample_env_never_raises)
  have pa: "parsed (map (event_date listing_engineer) ?events)
      = [date_2023_01_15, date_2023_02_01]"
    by (simp add: event_date_str parse_2023_01_15 parse_2023_02_01)
  have cj: "counted_jobs ?rows - {PInt 7} = {}"
    by (simp add: counted_jobs_def row_job_join_row [where listing = listing_engineer and L = "PInt 7"]
        id_listing_engineer event_date_str parse_2023_01_15 parse_2023_02_01)
  note T = listing_records_per_parsed_date_event [OF kls_is_KLS f id_listing_engineer l,
      where w = world0 and st = stats0]
  from T de nr obtain w' st'
    where m: "migrate_company env_two_events ''kls'' (world0, stats0) = (w', Inr st')"
    by blast
  from T [where w' = w' and st' = st'] m
  have po: "posted w' = posted world0 @ concat (map (row_posts ''kls'' ''KLS'') ?rows)
        @ dateless_posts env_two_events ''kls'' ''KLS'' []"
    and cs: "\<exists>cs. map_of (by_company st') ''KLS'' = Some cs
              \<and> jobs cs = card (counted_jobs ?rows - {PInt 7})
                    + (if parsed (map (event_date listing_engineer) ?events) = [] then 0 else 1)
                    + length ([] :: row list)
              \<and> total_jobs st' = total_jobs stats0 + jobs cs"
    by blast+
  from po have po': "posted w' =
      [build_payload ''KLS'' (map_job_fields ''kls'' listing_engineer) date_2023_01_15,
       build_payload ''KLS'' (map_job_fields ''kls'' listing_engineer) date_2023_02_01]"
    by (simp add: world0_def dateless_posts_def row_posts_join_row event_date_str
        parse_2023_01_15 parse_2023_02_01)
  from cs cj pa have cs': "\<exists>cs. map_of (by_company st') ''KLS'' = Some cs \<and> jobs cs = 1
      \<and> total_jobs st' = 1"
    by (auto simp: stats0_def)
  show ?thesis by (intro exI [of _ w'] exI [of _ st'] conjI m po' cs')
qed

subsection \<open>Runs on sample data\<close>

lemma migrate_source_query_fails:
  assumes "map_of COMPANY_MAPPING p = Some n" and "fetch e p = None"
  shows "migrate_source e ws p
     = (say [Banner n, MigrateError p DatabaseError, Traceback DatabaseError] (fst ws), snd ws)"
  using assms by (cases ws) (simp add: migrate_source_def migrate_company_def say_def)



lemma ks_is_KarlStorz: "map_of COMPANY_MAPPING ''ks'' = Some ''KarlStorz''"
  by (simp add: COMPANY_MAPPING_def)

lemma migrate_all_kls_only:
  assumes "connects e" and "fetch e ''ks'' = None"
  shows "posted (final_world (migrate_all e))
       = posted (fst (migrate_company e ''kls'' (say [Connected] (world0\<lparr>conn := Open\<rparr>), stats0)))"
    and "final_stats (migrate_all e)
       = (case snd (migrate_company e ''kls'' (say [Connected] (world0\<lparr>conn := Open\<rparr>), stats0))
          of Inr st \<Rightarrow> st | Inl err \<Rightarrow> stats0)"
proof -
  let ?ws = "(say [Connected] (world0\<lparr>conn := Open\<rparr>), stats0)"
  obtain w res where m: "migrate_company e ''kls'' ?ws = (w, res)"
    by (cases "migrate_company e ''kls'' ?ws")
  have s: "migrate_source e ?ws ''kls''
      = (case res of Inr st \<Rightarrow> (w, st)
         | Inl err \<Rightarrow> (say [MigrateError ''kls'' err, Traceback err] w, stats0))"
    using m by (cases res) (simp_all add: migrate_source_def)
  show "posted (final_world (migrate_all e)) = posted (fst (migrate_company e ''kls'' ?ws))"
    using m
    by (cases res)
      (simp_all add: migrate_all_sources [OF assms(1)] s
        migrate_source_query_fails [OF ks_is_KarlStorz assms(2)])
  show "final_stats (migrate_all e)
       = (case snd (migrate_company e ''kls'' ?ws) of Inr st \<Rightarrow> st | Inl err \<Rightarrow> stats0)"
    using m
    by (cases res)
      (simp_all add: migrate_all_sources [OF assms(1)] s
        migrate_source_query_fails [OF ks_is_KarlStorz assms(2)])
qed

lemma scrape_date_date_cell:
  "scrape_date_of (join_row listing (i, PDate d)) = Inl AttributeError"
  by (simp add: scrape_date_of_def join_row_def)

text \<open>
  The claim as stated covers every listing with N entries. A listing with one entry
  whose scrape date does not parse sends nothing and is not counted, in a source
  that is migrated to its end. And when the scrape date of the first of two entries
  is a date and no text, the source ends with an \<^verbatim>\<open>AttributeError\<close> before
  anything is sent, although the second entry parses.
\<close>

theorem listing_with_unparseable_event_sends_nothing:
  "fetch env_unparseable_event ''kls''
     = Some (map (join_row listing_engineer) [(PInt 1, PStr ''soon'')], [])
   \<and> length [(PInt 1, PStr ''soon'')] = 1
   \<and> posted (final_world (migrate_all env_unparseable_event)) = []
   \<and> by_company (final_stats (migrate_all env_unparseable_event))
       = [(''KLS'', \<lparr>jobs = 0, dates = 0, failed = 0\<rparr>)]
   \<and> total_jobs (final_stats (migrate_all env_unparseable_event)) = 0
   \<and> fetch env_date_cell ''kls''
     = Some (map (join_row listing_engineer)
               [(PInt 1, PDate \<lparr>year = 2023, month = 1, day = 15\<rparr>),
                (PInt 2, PStr ''2023-01-15'')], [])
   \<and> snd (migrate_company env_date_cell ''kls'' (world0, stats0)) = Inl AttributeError
   \<and> posted (final_world (migrate_all env_date_cell)) = []
   \<and> by_company (final_stats (migrate_all env_date_cell)) = []"
proof -
  let ?r = "join_row listing_engineer (PInt 1, PStr ''soon'')"
  let ?w0 = "say [Connected] (world0\<lparr>conn := Open\<rparr>)"
  have f: "fetch env_unparseable_event ''kls'' = Some ([?r], [])"
    by (simp add: env_unparseable_event_def)
  have c: "connects env_unparseable_event" "fetch env_unparseable_event ''ks'' = None"
    by (simp_all add: env_unparseable_event_def sample_env_def)
  have sd: "scrape_date_of ?r = Inr None" by (simp add: scrape_date_join parse_soon)
  let ?w2 = "say [SkipWarning (?r ''ScrapeDate'')] (say [Banner ''KLS''] ?w0)"
  from dated_row_skips [OF sd, of env_unparseable_event "''kls''" "''KLS''"
      "say [Banner ''KLS''] ?w0" counters0]
  have d: "dated_rows env_unparseable_event ''kls'' ''KLS'' [?r]
      (say [Banner ''KLS''] ?w0, counters0) = (?w2, Inr counters0)"
    by simp
  have l: "dateless_rows env_unparseable_event ''kls'' ''KLS'' [] (?w2, counters0)
      = (?w2, Inr counters0)" by simp
  note m = migrate_company_ends [OF kls_is_KLS f d l, of stats0]
  from migrate_all_kls_only [OF c] m
  have 1: "posted (final_world (migrate_all env_unparseable_event)) = []"
    and 2: "final_stats (migrate_all env_unparseable_event)
      = record_company ''KLS'' counters0 stats0"
    by (simp_all add: world0_def)
  from 2 have 3: "by_company (final_stats (migrate_all env_unparseable_event))
       = [(''KLS'', \<lparr>jobs = 0, dates = 0, failed = 0\<rparr>)]"
    and 4: "total_jobs (final_stats (migrate_all env_unparseable_event)) = 0"
    by (simp_all add: record_company_def counters0_def stats0_def)
  let ?q = "join_row listing_engineer (PInt 1, PDate \<lparr>year = 2023, month = 1, day = 15\<rparr>)"
  let ?q' = "join_row listing_engineer (PInt 2, PStr ''2023-01-15'')"
  have f': "fetch env_date_cell ''kls'' = Some ([?q, ?q'], [])"
    by (simp add: env_date_cell_def)
  have c': "connects env_date_cell" "fetch env_date_cell ''ks'' = None"
    by (simp_all add: env_date_cell_def sample_env_def)
  have d': "dated_rows env_date_cell ''kls'' ''KLS'' [?q, ?q'] (say [Banner ''KLS''] w, counters0)
      = (say [Banner ''KLS''] w, Inl AttributeError)" for w
    using dated_row_raises [OF scrape_date_date_cell, of env_date_cell "''kls''" "''KLS''"
        "say [Banner ''KLS''] w" counters0 listing_engineer "PInt 1"
        "\<lparr>year = 2023, month = 1, day = 15\<rparr>"]
    by simp
  note m' = migrate_company_dated_raises [OF kls_is_KLS f' d']
  from m' [of world0 stats0]
  have 5: "snd (migrate_company env_date_cell ''kls'' (world0, stats0)) = Inl AttributeError"
    by simp
  from migrate_all_kls_only [OF c'] m' [of ?w0 stats0]
  have 6: "posted (final_world (migrate_all env_date_cell)) = []"
    and 7: "by_company (final_stats (migrate_all env_date_cell)) = []"
    by (simp_all add: world0_def stats0_def)
  from f f' 1 3 4 5 6 7 show ?thesis by simp
qed

subsection \<open>Listings without date entries\<close>

lemma dateless_posts_append:
  "dateless_posts e p n (ds1 @ r # ds2)
     = dateless_posts e p n ds1
       @ [build_payload n (map_job_fields p r) (dateless_date e (map_job_fields p r))]
       @ dateless_posts e p n ds2"
  by (simp add: dateless_posts_def)

text \<open>
  C4, as amended. Take a source of \<^verbatim>\<open>COMPANY_MAPPING\<close> and a listing among the
  rows of its second query (the listings without date entries). When the migration
  of the source runs to its end, exactly one request is sent for the listing, at its
  place among the requests of the listings without date entries, which follow those
  of the rows of the join; and the listing counts as one unique job in the number
  recorded for the source and added to the total. The \<^verbatim>\<open>scrape_date\<close> of that
  request is the date \<^verbatim>\<open>datetime.fromisoformat\<close> reads from the mapped
  \<^verbatim>\<open>date_added\<close> field when the field is there, not empty and readable, and
  the current date in every other case. The migration of the source runs to its end
  when no row of the join raises by itself and no submission raises.
\<close>

theorem dateless_listing_one_record:
  assumes "map_of COMPANY_MAPPING p = Some n"
    and "fetch e p = Some (rows, ds1 @ r # ds2)"
  shows "(migrate_company e p (w, st) = (w', Inr st') \<longrightarrow>
         posted w' = posted w @ concat (map (row_posts p n) rows)
           @ dateless_posts e p n ds1
           @ [build_payload n (map_job_fields p r) (dateless_date e (map_job_fields p r))]
           @ dateless_posts e p n ds2
         \<and> (\<exists>cs. map_of (by_company st') n = Some cs
              \<and> jobs cs = card (counted_jobs rows) + length ds1 + 1 + length ds2
              \<and> total_jobs st' = total_jobs st + jobs cs))
   \<and> map_of (build_payload n (map_job_fields p r) (dateless_date e (map_job_fields p r)))
        ''scrape_date'' = Some (JStr (isoformat (dateless_date e (map_job_fields p r))))
   \<and> (\<forall>s d. map_of (map_job_fields p r) ''date_added'' = Some (JStr s) \<and> s \<noteq> []
          \<and> fromisoformat e s = Some d
        \<longrightarrow> dateless_date e (map_job_fields p r) = d)
   \<and> (map_of (map_job_fields p r) ''date_added'' = None
        \<or> (\<exists>s. map_of (map_job_fields p r) ''date_added'' = Some (JStr s)
              \<and> (s = [] \<or> fromisoformat e s = None))
        \<longrightarrow> dateless_date e (map_job_fields p r) = today e)
   \<and> (dated_error rows = None \<and> (\<forall>i err. submit_result e (responses e i) \<noteq> Inl err) \<longrightarrow>
         (\<exists>w' st'. migrate_company e p (w, st) = (w', Inr st')))"
proof (intro conjI allI impI)
  show "map_of (build_payload n (map_job_fields p r) (dateless_date e (map_job_fields p r)))
        ''scrape_date'' = Some (JStr (isoformat (dateless_date e (map_job_fields p r))))"
    by (rule payload_fixed)
next
  fix s d
  assume "map_of (map_job_fields p r) ''date_added'' = Some (JStr s) \<and> s \<noteq> []
          \<and> fromisoformat e s = Some d"
  then show "dateless_date e (map_job_fields p r) = d"
    by (simp add: dateless_date_def)
next
  assume "map_of (map_job_fields p r) ''date_added'' = None
        \<or> (\<exists>s. map_of (map_job_fields p r) ''date_added'' = Some (JStr s)
              \<and> (s = [] \<or> fromisoformat e s = None))"
  then show "dateless_date e (map_job_fields p r) = today e"
    by (auto simp: dateless_date_def)
next
  assume "dated_error rows = None \<and> (\<forall>i err. submit_result e (responses e i) \<noteq> Inl err)"
  then have a: "dated_error rows = None"
    and b: "\<forall>i err. submit_result e (responses e i) \<noteq> Inl err" by simp_all
  from migrate_company_runs [OF assms(1,2) a b, of w st]
  show "\<exists>w' st'. migrate_company e p (w, st) = (w', Inr st')" .
next
  assume m: "migrate_company e p (w, st) = (w', Inr st')"
  from migrate_company_completes [OF m] assms(1,2) obtain c'
    where po: "posted w' = posted w @ concat (map (row_posts p n) rows)
                 @ dateless_posts e p n (ds1 @ r # ds2)"
      and st': "st' = record_company n c' st"
      and j: "jobs_migrated c' = card (counted_jobs rows) + length (ds1 @ r # ds2)"
    by auto
  from po show "posted w' = posted w @ concat (map (row_posts p n) rows)
           @ dateless_posts e p n ds1
           @ [build_payload n (map_job_fields p r) (dateless_date e (map_job_fields p r))]
           @ dateless_posts e p n ds2"
    by (simp only: dateless_posts_append)
  let ?cs = "\<lparr>jobs = jobs_migrated c', dates = dates_migrated c', failed = errors c'\<rparr>"
  from st' have a: "map_of (by_company st') n = Some ?cs" by (simp add: by_company_record)
  from j have b: "jobs ?cs = card (counted_jobs rows) + length ds1 + 1 + length ds2" by simp
  from st' have c: "total_jobs st' = total_jobs st + jobs ?cs" by (simp add: totals_record)
  from a b c show "\<exists>cs. map_of (by_company st') n = Some cs
              \<and> jobs cs = card (counted_jobs rows) + length ds1 + 1 + length ds2
              \<and> total_jobs st' = total_jobs st + jobs cs"
    by (intro exI [of _ ?cs] conjI)
qed

lemma map_job_fields_dateless:
  "map_job_fields ''kls'' row_dateless = [(''title'', JStr ''Boss''), (''date_added'', JStr ''2023-01-15'')]"
  by (simp add: map_job_fields_def field_mapping_def FIELD_MAPPINGS_def map_field_def
      row_dateless_def parse_eval isoformat_def zpad_def dec.simps digit_char_def)

lemma map_job_fields_listing_engineer:
  "map_job_fields ''kls'' listing_engineer = [(''title'', JStr ''Engineer''), (''job_id'', JStr ''42'')]"
  by (simp add: map_job_fields_def field_mapping_def FIELD_MAPPINGS_def map_field_def
      listing_engineer_def)

theorem dateless_listing_one_record_witness:
  "fetch env_dateless_known ''kls'' = Some ([], [row_dateless, listing_engineer])
   \<and> map_of (map_job_fields ''kls'' row_dateless) ''date_added'' = Some (JStr ''2023-01-15'')
   \<and> fromisoformat env_dateless_known ''2023-01-15'' = Some \<lparr>year = 2023, month = 1, day = 15\<rparr>
   \<and> dateless_date env_dateless_known (map_job_fields ''kls'' row_dateless)
       = \<lparr>year = 2023, month = 1, day = 15\<rparr>
   \<and> map_of (map_job_fields ''kls'' listing_engineer) ''date_added'' = None
   \<and> dateless_date env_dateless_known (map_job_fields ''kls'' listing_engineer)
       = today env_dateless_known
   \<and> (\<exists>w' st'. migrate_company env_dateless_known ''kls'' (world0, stats0) = (w', Inr st')
        \<and> posted w' = [build_payload ''KLS'' (map_job_fields ''kls'' row_dateless)
                         \<lparr>year = 2023, month = 1, day = 15\<rparr>,
                       build_payload ''KLS'' (map_job_fields ''kls'' listing_engineer)
                         (today env_dateless_known)]
        \<and> (\<exists>cs. map_of (by_company st') ''KLS'' = Some cs \<and> jobs cs = 2
              \<and> total_jobs st' = 2))"
proof -
  have f0: "fetch env_dateless_known ''kls'' = Some ([], [row_dateless, listing_engineer])"
    by (simp add: env_dateless_known_def)
  then have f: "fetch env_dateless_known ''kls''
      = Some ([], [] @ row_dateless # [listing_engineer])"
    and f': "fetch env_dateless_known ''kls''
      = Some ([], [row_dateless] @ listing_engineer # [])"
    by simp_all
  have a: "map_of (map_job_fields ''kls'' row_dateless) ''date_added'' = Some (JStr ''2023-01-15'')"
    by (simp add: map_job_fields_dateless)
  have a': "map_of (map_job_fields ''kls'' listing_engineer) ''date_added'' = None"
    by (simp add: map_job_fields_listing_engineer)
  have b: "fromisoformat env_dateless_known ''2023-01-15''
      = Some \<lparr>year = 2023, month = 1, day = 15\<rparr>"
    by (simp add: env_dateless_known_def env_date_known_def)
  have nr: "\<forall>i err. submit_result env_dateless_known (responses env_dateless_known i) \<noteq> Inl err"
    by (simp add: submit_result_def env_dateless_known_def env_date_known_def sample_env_def
        raise_for_status_def body_seen_def response_json_def)
  have de: "dated_error ([] :: row list) = None" by simp
  note T = dateless_listing_one_record [OF kls_is_KLS f, where w = world0 and st = stats0]
  note T' = dateless_listing_one_record [OF kls_is_KLS f', where w = world0 and st = stats0]
  from T a b have d: "dateless_date env_dateless_known (map_job_fields ''kls'' row_dateless)
       = \<lparr>year = 2023, month = 1, day = 15\<rparr>" by blast
  from T' a' have d': "dateless_date env_dateless_known (map_job_fields ''kls'' listing_engineer)
       = today env_dateless_known" by blast
  from T de nr obtain w' st'
    where m: "migrate_company env_dateless_known ''kls'' (world0, stats0) = (w', Inr st')"
    by blast
  from T [where w' = w' and st' = st'] m
  have po: "posted w' = posted world0 @ concat (map (row_posts ''kls'' ''KLS'') [])
           @ dateless_posts env_dateless_known ''kls'' ''KLS'' []
           @ [build_payload ''KLS'' (map_job_fields ''kls'' row_dateless)
                (dateless_date env_dateless_known (map_job_fields ''kls'' row_dateless))]
           @ dateless_posts env_dateless_known ''kls'' ''KLS'' [listing_engineer]"
    and cs: "\<exists>cs. map_of (by_company st') ''KLS'' = Some cs
              \<and> jobs cs = card (counted_jobs []) + length ([] :: row list) + 1
                    + length [listing_engineer]
              \<and> total_jobs st' = total_jobs stats0 + jobs cs"
    by blast+
  from po d d' have po': "posted w' = [build_payload ''KLS'' (map_job_fields ''kls'' row_dateless)
                         \<lparr>year = 2023, month = 1, day = 15\<rparr>,
                       build_payload ''KLS'' (map_job_fields ''kls'' listing_engineer)
                         (today env_dateless_known)]"
    by (simp add: world0_def dateless_posts_def)
  from cs have cs': "\<exists>cs. map_of (by_company st') ''KLS'' = Some cs \<and> jobs cs = 2
      \<and> total_jobs st' = 2"
    by (auto simp: stats0_def counted_jobs_def)
  have "\<exists>w' st'. migrate_company env_dateless_known ''kls'' (world0, stats0) = (w', Inr st')
        \<and> posted w' = [build_payload ''KLS'' (map_job_fields ''kls'' row_dateless)
                         \<lparr>year = 2023, month = 1, day = 15\<rparr>,
                       build_payload ''KLS'' (map_job_fields ''kls'' listing_engineer)
                         (today env_dateless_known)]
        \<and> (\<exists>cs. map_of (by_company st') ''KLS'' = Some cs \<and> jobs cs = 2
              \<and> total_jobs st' = 2)"
    by (intro exI [of _ w'] exI [of _ st'] conjI m po' cs')
  with f0 a b d a' d' show ?thesis by (intro conjI)
qed

text \<open>
  The claim as stated covers every listing without date entries. When a row of the
  join of the same source has a scrape date that is a date and no text, the source
  ends with an \<^verbatim>\<open>AttributeError\<close> in the first loop: the second loop is
  never entered and nothing is sent for the listing.
\<close>

theorem dateless_listing_of_failed_source_sends_nothing:
  "fetch env_date_cell_dateless ''kls''
     = Some ([join_row listing_engineer (PInt 1, PDate \<lparr>year = 2023, month = 1, day = 15\<rparr>)],
             [row_dateless])
   \<and> snd (migrate_company env_date_cell_dateless ''kls'' (world0, stats0)) = Inl AttributeError
   \<and> posted (fst (migrate_company env_date_cell_dateless ''kls'' (world0, stats0))) = []
   \<and> posted (final_world (migrate_all env_date_cell_dateless)) = []
   \<and> by_company (final_stats (migrate_all env_date_cell_dateless)) = []"
proof -
  let ?q = "join_row listing_engineer (PInt 1, PDate \<lparr>year = 2023, month = 1, day = 15\<rparr>)"
  let ?w0 = "say [Connected] (world0\<lparr>conn := Open\<rparr>)"
  have f: "fetch env_date_cell_dateless ''kls'' = Some ([?q], [row_dateless])"
    by (simp add: env_date_cell_dateless_def)
  have c: "connects env_date_cell_dateless" "fetch env_date_cell_dateless ''ks'' = None"
    by (simp_all add: env_date_cell_dateless_def sample_env_def)
  have d: "dated_rows env_date_cell_dateless ''kls'' ''KLS'' [?q]
      (say [Banner ''KLS''] w, counters0) = (say [Banner ''KLS''] w, Inl AttributeError)" for w
    using dated_row_raises [OF scrape_date_date_cell, of env_date_cell_dateless "''kls''" "''KLS''"
        "say [Banner ''KLS''] w" counters0 listing_engineer "PInt 1"
        "\<lparr>year = 2023, month = 1, day = 15\<rparr>"]
    by simp
  note m = migrate_company_dated_raises [OF kls_is_KLS f d]
  from m [of world0 stats0]
  have 1: "snd (migrate_company env_date_cell_dateless ''kls'' (world0, stats0))
      = Inl AttributeError"
    and 2: "posted (fst (migrate_company env_date_cell_dateless ''kls'' (world0, stats0))) = []"
    by (simp_all add: world0_def)
  from migrate_all_kls_only [OF c] m [of ?w0 stats0]
  have 3: "posted (final_world (migrate_all env_date_cell_dateless)) = []"
    and 4: "by_company (final_stats (migrate_all env_date_cell_dateless)) = []"
    by (simp_all add: world0_def stats0_def)
  from f 1 2 3 4 show ?thesis by simp
qed

subsection \<open>The run as a whole\<close>








subsection \<open>Failed submissions in the statistics\<close>












end
